theory Spec2Isabelle
  imports Main "HOL-Library.Sublist"
begin

section \<open>Python values used by app.py\<close>

text \<open>
  A Python \<open>str\<close> is a sequence of Unicode code points, so it is modelled as a list of
  natural numbers (one per code point), not as a byte string: the keywords and templates
  of app.py are CJK text. \<open>ascii\<close> writes the ASCII part of a literal.
\<close>

type_synonym str = "nat list"

definition ascii :: "string \<Rightarrow> str" where
  "ascii s = map of_char s"

text \<open>
  The subclasses of Python's \<open>Exception\<close> that the model can raise. A platform call may
  fail with any of them (\<open>ApiException\<close> carries the HTTP status);
  \<open>ValidationError\<close> is what a request model raises for a field it does not accept;
  \<open>HTTPException\<close> is what Flask's \<open>abort\<close> raises. What is not an \<open>Exception\<close>
  (an interrupt, an exit of the interpreter) ends the process and is not modelled.
\<close>

datatype exn =
    InvalidSignatureError
  | AttributeError
  | TypeError
  | KeyError
  | ValueError
  | IndexError
  | ApiException nat
  | ValidationError
  | HTTPException nat
  | OtherException str

text \<open>\<open>str.startswith\<close>: \<open>startswith s p\<close> is \<open>s.startswith(p)\<close>.\<close>

fun startswith :: "str \<Rightarrow> str \<Rightarrow> bool" where
  "startswith s [] = True"
| "startswith [] (p # ps) = False"
| "startswith (c # cs) (p # ps) = (c = p \<and> startswith cs ps)"

text \<open>The substring test: \<open>contains k s\<close> is \<open>k in s\<close>.\<close>

fun contains :: "str \<Rightarrow> str \<Rightarrow> bool" where
  "contains k [] = (k = [])"
| "contains k (c # cs) = (startswith (c # cs) k \<or> contains k cs)"

text \<open>
  \<open>str.lower\<close> is the Unicode lower-casing of the Python runtime; the functions below
  take it as the parameter \<open>lower\<close>. \<open>lower_ascii\<close> is its restriction to strings whose
  cased code points are ASCII letters (it agrees with \<open>str.lower\<close> on ASCII and on the
  caseless CJK code points and punctuation of the keywords); it serves to evaluate the
  functions on such strings.
\<close>

definition lower_ascii :: "str \<Rightarrow> str" where
  "lower_ascii s = map (\<lambda>c. if 65 \<le> c \<and> c \<le> 90 then c + 32 else c) s"

section \<open>BotConfig\<close>

text \<open>
  The dataclass \<open>BotConfig\<close>. The four fields read from the environment hold
  \<open>os.getenv\<close>'s result, which is \<open>None\<close> for an unset variable; \<open>OTHER_KEYWORDS\<close>
  has the default \<open>None\<close>.
\<close>

record BotConfig =
  ACCESS_TOKEN :: "str option"
  CHANNEL_SECRET :: "str option"
  SOURCE_GROUP_ID :: "str option"
  TARGET_GROUP_ID :: "str option"
  START_KEYWORD :: str
  OTHER_KEYWORDS :: "str list option"

text \<open>An argument of the generated constructor: left out, or given.\<close>

datatype 'a arg = Default | Given 'a

fun arg_or :: "'a \<Rightarrow> 'a arg \<Rightarrow> 'a" where
  "arg_or d Default = d"
| "arg_or d (Given v) = v"

text \<open>U+3010 \<open>Cashier Notifier\<close> U+3011\<close>

definition START_KEYWORD_default :: str where
  "START_KEYWORD_default = [12304] @ ascii ''Cashier Notifier'' @ [12305]"

text \<open>\<open>__post_init__\<close>: the list is U+932F U+8AA4 U+78BC U+FF1A and \<open>video:\<close>.\<close>

definition post_init :: "BotConfig \<Rightarrow> BotConfig" where
  "post_init self = self\<lparr>OTHER_KEYWORDS := Some [[37679, 35492, 30908, 65306], ascii ''video:'']\<rparr>"

text \<open>
  The constructor generated by \<open>@dataclass\<close>: every field is a keyword argument whose
  default was computed when the class was defined (\<open>getenv\<close> is the environment at that
  moment); \<open>__post_init__\<close> runs last.
\<close>

definition BotConfig_new ::
  "(string \<Rightarrow> str option) \<Rightarrow> str option arg \<Rightarrow> str option arg \<Rightarrow> str option arg \<Rightarrow>
   str option arg \<Rightarrow> str arg \<Rightarrow> str list option arg \<Rightarrow> BotConfig" where
  "BotConfig_new getenv access_token channel_secret source_group_id target_group_id
     start_keyword other_keywords =
   post_init
     \<lparr>ACCESS_TOKEN = arg_or (getenv ''ACCESS_TOKEN'') access_token,
      CHANNEL_SECRET = arg_or (getenv ''CHANNEL_SECRET'') channel_secret,
      SOURCE_GROUP_ID = arg_or (getenv ''SOURCE_GROUP_ID'') source_group_id,
      TARGET_GROUP_ID = arg_or (getenv ''TARGET_GROUP_ID'') target_group_id,
      START_KEYWORD = arg_or START_KEYWORD_default start_keyword,
      OTHER_KEYWORDS = arg_or None other_keywords\<rparr>"

text \<open>\<open>BotConfig()\<close>, as the module builds it for the bot.\<close>

definition bot_config :: "(string \<Rightarrow> str option) \<Rightarrow> BotConfig" where
  "bot_config getenv = BotConfig_new getenv Default Default Default Default Default Default"

section \<open>The filter\<close>

text \<open>
  \<open>LineBot.should_forward_message\<close>. Iterating \<open>OTHER_KEYWORDS\<close> raises \<open>TypeError\<close>
  when it is \<open>None\<close>; \<open>all\<close> over the generator is \<open>list_all\<close>.
\<close>

definition should_forward_message :: "(str \<Rightarrow> str) \<Rightarrow> BotConfig \<Rightarrow> str \<Rightarrow> exn + bool" where
  "should_forward_message lower config message_text =
     (if \<not> startswith (lower message_text) (lower (START_KEYWORD config)) then Inr False
      else case OTHER_KEYWORDS config of
             None \<Rightarrow> Inl TypeError
           | Some keywords \<Rightarrow>
               Inr (list_all (\<lambda>keyword. contains (lower keyword) (lower message_text)) keywords))"

section \<open>Message templates\<close>

text \<open>
  \<open>str.format\<close> with keyword arguments only, as \<open>create_message_text\<close> calls it. The
  template is read from left to right; the second argument is the name of the replacement
  field being read (\<open>None\<close> outside a field). \<open>{{\<close> and \<open>}}\<close> are escaped braces
  (code points 123 and 125), a single \<open>}\<close> or an unclosed \<open>{\<close> is a \<open>ValueError\<close>, a
  field without a name or with a number for name asks for a positional argument
  (\<open>IndexError\<close>, there is none) and an unknown name is a \<open>KeyError\<close>. The values are strings and are inserted as they are.
  A field is a plain name: conversions, format specifications, attribute and index
  lookups (the code points of \<open>field_syntax\<close>) occur in no template of app.py and are
  outside this model, which answers \<open>OtherException\<close> there.
\<close>

definition field_syntax :: str where
  "field_syntax = ascii ''{!:.[]''"

fun format_from :: "(str \<times> str) list \<Rightarrow> str option \<Rightarrow> str \<Rightarrow> exn + str" where
  "format_from kwargs None [] = Inr []"
| "format_from kwargs (Some name) [] = Inl ValueError"
| "format_from kwargs None (c # cs) =
     (if c = 123 then
        (case cs of
           [] \<Rightarrow> Inl ValueError
         | d # ds \<Rightarrow>
             if d = 123 then map_sum id ((#) 123) (format_from kwargs None ds)
             else format_from kwargs (Some []) cs)
      else if c = 125 then
        (case cs of
           [] \<Rightarrow> Inl ValueError
         | d # ds \<Rightarrow>
             if d = 125 then map_sum id ((#) 125) (format_from kwargs None ds)
             else Inl ValueError)
      else map_sum id ((#) c) (format_from kwargs None cs))"
| "format_from kwargs (Some name) (c # cs) =
     (if c = 125 then
        (if list_all (\<lambda>d. 48 \<le> d \<and> d \<le> 57) name then Inl IndexError
         else case map_of kwargs name of
                None \<Rightarrow> Inl KeyError
              | Some v \<Rightarrow> map_sum id ((@) v) (format_from kwargs None cs))
      else if c \<in> set field_syntax then Inl (OtherException (ascii ''field syntax''))
      else format_from kwargs (Some (name @ [c])) cs)"

definition format_str :: "str \<Rightarrow> (str \<times> str) list \<Rightarrow> exn + str" where
  "format_str template kwargs = format_from kwargs None template"

text \<open>
  The two templates of \<open>create_message_text\<close>, code point by code point:
  \<open>[\<close> U+8F49 U+767C U+8A0A U+606F \<open>]\<close> newline U+767C U+9001 U+8005 U+FF1A \<open>{sender}\<close>
  newline \<open>From\<close> U+7FA4 U+7D44 U+FF1A \<open>{group}\<close> newline U+8A0A U+606F U+5167 U+5BB9
  U+FF1A newline newline \<open>{text}\<close>, and
  \<open>[\<close> U+8A0A U+606F U+5DF2 U+8F49 U+767C \<open>]\<close> newline U+767C U+9001 U+8005 U+FF1A
  \<open>{sender}\<close> newline \<open>To\<close> U+7FA4 U+7D44 U+FF1A \<open>{group}\<close> newline U+8A0A U+606F U+5167
  U+5BB9 U+FF1A newline newline \<open>{text}\<close>.
\<close>

definition templates :: "(str \<times> str) list" where
  "templates =
     [(ascii ''forward'',
       [91, 36681, 30332, 35338, 24687, 93, 10, 30332, 36865, 32773, 65306]
         @ ascii ''{sender}'' @ [10] @ ascii ''From'' @ [32676, 32068, 65306]
         @ ascii ''{group}'' @ [10, 35338, 24687, 20839, 23481, 65306, 10, 10]
         @ ascii ''{text}''),
      (ascii ''reply'',
       [91, 35338, 24687, 24050, 36681, 30332, 93, 10, 30332, 36865, 32773, 65306]
         @ ascii ''{sender}'' @ [10] @ ascii ''To'' @ [32676, 32068, 65306]
         @ ascii ''{group}'' @ [10, 35338, 24687, 20839, 23481, 65306, 10, 10]
         @ ascii ''{text}'')]"

text \<open>\<open>LineBot.create_message_text\<close>; \<open>templates[message_type]\<close> raises \<open>KeyError\<close>.\<close>

definition create_message_text :: "str \<Rightarrow> str \<Rightarrow> str \<Rightarrow> str \<Rightarrow> exn + str" where
  "create_message_text message_type sender_name group_name original_text =
     (case map_of templates message_type of
        None \<Rightarrow> Inl KeyError
      | Some template \<Rightarrow>
          format_str template
            [(ascii ''sender'', sender_name),
             (ascii ''group'', group_name),
             (ascii ''text'', original_text)])"

section \<open>Webhook events\<close>

text \<open>
  The event source of the webhook: a user, a group or a room. Only a group source has the
  attribute \<open>group_id\<close>; reading it from another source raises \<open>AttributeError\<close>.
\<close>

datatype Source =
    UserSource "str option"
  | GroupSource str "str option"
  | RoomSource str "str option"

fun source_type :: "Source \<Rightarrow> str" where
  "source_type (UserSource user) = ascii ''user''"
| "source_type (GroupSource gid user) = ascii ''group''"
| "source_type (RoomSource rid user) = ascii ''room''"

fun source_group_id :: "Source \<Rightarrow> exn + str" where
  "source_group_id (GroupSource gid user) = Inr gid"
| "source_group_id (UserSource user) = Inl AttributeError"
| "source_group_id (RoomSource rid user) = Inl AttributeError"

fun source_user_id :: "Source \<Rightarrow> str option" where
  "source_user_id (UserSource user) = user"
| "source_user_id (GroupSource gid user) = user"
| "source_user_id (RoomSource rid user) = user"

text \<open>
  A \<open>MessageEvent\<close> whose message is a \<open>TextMessageContent\<close>: \<open>message_text\<close> is
  \<open>event.message.text\<close>. The source and the reply token are optional in the event.
\<close>

record MessageEvent =
  source :: "Source option"
  message_text :: str
  reply_token :: "str option"

section \<open>The messaging platform\<close>

record GroupSummaryResponse =
  summary_group_id :: str
  group_name :: str

record GroupMemberCountResponse =
  count :: int

record GroupUserProfileResponse =
  profile_user_id :: str
  display_name :: str

datatype TextMessage = TextMessage str

text \<open>
  A request object that exists: the receiver, or the reply token, is a string. The
  constructors of the request models check this when app.py builds the request, before
  any call: \<open>PushMessageRequest(to=None, ...)\<close> and
  \<open>ReplyMessageRequest(reply_token=None, ...)\<close> raise \<open>ValidationError\<close>. (The list of
  messages has one element in app.py, which the models accept.)
\<close>

datatype PushMessageRequest = PushRequest str "TextMessage list"

datatype ReplyMessageRequest = ReplyRequest str "TextMessage list"

definition PushMessageRequest :: "str option \<Rightarrow> TextMessage list \<Rightarrow> exn + PushMessageRequest" where
  "PushMessageRequest to messages =
     (case to of None \<Rightarrow> Inl ValidationError | Some v \<Rightarrow> Inr (PushRequest v messages))"

definition ReplyMessageRequest :: "str option \<Rightarrow> TextMessage list \<Rightarrow> exn + ReplyMessageRequest" where
  "ReplyMessageRequest token messages =
     (case token of
        None \<Rightarrow> Inl ValidationError
      | Some v \<Rightarrow> Inr (ReplyRequest v messages))"

text \<open>
  The platform behind \<open>MessagingApi\<close> (client library and network) is not part of the
  program: it is a parameter, an arbitrary machine with a state of type \<open>'p\<close> that
  answers each call with a result or an exception and moves to a new state. Arguments are
  handed over as the program has them, \<open>None\<close> included.
\<close>

record 'p MessagingApi =
  group_summary :: "str option \<Rightarrow> 'p \<Rightarrow> (exn + GroupSummaryResponse) \<times> 'p"
  group_member_count :: "str option \<Rightarrow> 'p \<Rightarrow> (exn + GroupMemberCountResponse) \<times> 'p"
  group_member_profile ::
    "str option \<Rightarrow> str option \<Rightarrow> 'p \<Rightarrow> (exn + GroupUserProfileResponse) \<times> 'p"
  push :: "PushMessageRequest \<Rightarrow> 'p \<Rightarrow> (exn + unit) \<times> 'p"
  reply :: "ReplyMessageRequest \<Rightarrow> 'p \<Rightarrow> (exn + unit) \<times> 'p"

text \<open>The calls the program makes, and what the platform answered.\<close>

datatype api_call =
    GetGroupSummary "str option"
  | GetGroupMemberCount "str option"
  | GetGroupMemberProfile "str option" "str option"
  | PushMessage PushMessageRequest
  | ReplyMessageWithHttpInfo ReplyMessageRequest

datatype api_result =
    Summary GroupSummaryResponse
  | MemberCount GroupMemberCountResponse
  | Profile GroupUserProfileResponse
  | NoContent

datatype level = DEBUG | INFO | ERROR

text \<open>
  A record of the log: the level, the literal part of the message and the exception
  whose \<open>str\<close> the f-string appends, if any.
\<close>

datatype log_entry = Log level str "exn option"

text \<open>
  What a request can change: the state of the platform, the calls made so far (oldest
  first) and the log. The bot itself keeps no state besides its configuration, which no
  function assigns.
\<close>

record 'p world =
  platform_state :: 'p
  calls :: "(api_call \<times> (exn + api_result)) list"
  logged :: "log_entry list"

text \<open>A statement of the program: it returns a value or raises, and changes the world.\<close>

type_synonym ('a, 'p) action = "'p world \<Rightarrow> (exn + 'a) \<times> 'p world"

definition ret :: "'a \<Rightarrow> ('a, 'p) action" where
  "ret v w = (Inr v, w)"

definition raise :: "exn \<Rightarrow> ('a, 'p) action" where
  "raise e w = (Inl e, w)"

definition lift :: "exn + 'a \<Rightarrow> ('a, 'p) action" where
  "lift r w = (r, w)"

definition bind :: "('a, 'p) action \<Rightarrow> ('a \<Rightarrow> ('b, 'p) action) \<Rightarrow> ('b, 'p) action" where
  "bind m f w = (case m w of (Inl e, w') \<Rightarrow> (Inl e, w') | (Inr v, w') \<Rightarrow> f v w')"

definition try_except :: "('a, 'p) action \<Rightarrow> (exn \<Rightarrow> ('a, 'p) action) \<Rightarrow> ('a, 'p) action" where
  "try_except m h w = (case m w of (Inl e, w') \<Rightarrow> h e w' | (Inr v, w') \<Rightarrow> (Inr v, w'))"

text \<open>
  \<open>logging.basicConfig(level=logging.INFO)\<close>: a \<open>DEBUG\<close> message is dropped.
\<close>

definition logger :: "level \<Rightarrow> str \<Rightarrow> exn option \<Rightarrow> (unit, 'p) action" where
  "logger lvl msg e w =
     (Inr (), if lvl = DEBUG then w else w\<lparr>logged := logged w @ [Log lvl msg e]\<rparr>)"

text \<open>One call of the platform, recorded with its answer.\<close>

definition call_api ::
  "api_call \<Rightarrow> ('r \<Rightarrow> api_result) \<Rightarrow> ('p \<Rightarrow> (exn + 'r) \<times> 'p) \<Rightarrow> ('r, 'p) action" where
  "call_api c tag f w =
     (case f (platform_state w) of
        (r, p') \<Rightarrow> (r, w\<lparr>platform_state := p', calls := calls w @ [(c, map_sum id tag r)]\<rparr>))"

definition get_group_summary ::
  "'p MessagingApi \<Rightarrow> str option \<Rightarrow> (GroupSummaryResponse, 'p) action" where
  "get_group_summary api gid = call_api (GetGroupSummary gid) Summary (group_summary api gid)"

definition get_group_member_count ::
  "'p MessagingApi \<Rightarrow> str option \<Rightarrow> (GroupMemberCountResponse, 'p) action" where
  "get_group_member_count api gid =
     call_api (GetGroupMemberCount gid) MemberCount (group_member_count api gid)"

definition get_group_member_profile ::
  "'p MessagingApi \<Rightarrow> str option \<Rightarrow> str option \<Rightarrow> (GroupUserProfileResponse, 'p) action" where
  "get_group_member_profile api gid uid =
     call_api (GetGroupMemberProfile gid uid) Profile (group_member_profile api gid uid)"

definition push_message :: "'p MessagingApi \<Rightarrow> PushMessageRequest \<Rightarrow> (unit, 'p) action" where
  "push_message api req = call_api (PushMessage req) (\<lambda>u. NoContent) (push api req)"

definition reply_message_with_http_info ::
  "'p MessagingApi \<Rightarrow> ReplyMessageRequest \<Rightarrow> (unit, 'p) action" where
  "reply_message_with_http_info api req =
     call_api (ReplyMessageWithHttpInfo req) (\<lambda>u. NoContent) (reply api req)"

section \<open>The forwarding handler\<close>

record group_info =
  summary :: GroupSummaryResponse
  members_count :: GroupMemberCountResponse

text \<open>
  \<open>LineBot.get_group_info\<close>; the message logged on failure is
  U+7372 U+53D6 U+7FA4 U+7D44 U+8CC7 U+8A0A U+5931 U+6557 \<open>: \<close> and \<open>str(e)\<close>, and the
  exception is raised again.
\<close>

definition get_group_info :: "'p MessagingApi \<Rightarrow> str option \<Rightarrow> (group_info, 'p) action" where
  "get_group_info api gid =
     try_except
       (bind (get_group_summary api gid) (\<lambda>group_summary.
        bind (get_group_member_count api gid) (\<lambda>group_members_count.
        ret \<lparr>summary = group_summary, members_count = group_members_count\<rparr>)))
       (\<lambda>e. bind (logger ERROR ([29554, 21462, 32676, 32068, 36039, 35338, 22833, 25943, 58, 32]) (Some e))
               (\<lambda>u. raise e))"

text \<open>
  The statements under \<open>try\<close> in \<open>LineBot.process_message\<close>. Entering and leaving the
  \<open>ApiClient\<close> context calls no endpoint of the platform; the calls are those of
  \<open>line_bot_api\<close>. Each request is built after its text and before its call. The message
  logged on success is U+8A0A U+606F U+8F49 U+767C U+6210 U+529F \<open>: \<close> with the first 50 code
  points of the text and \<open>...\<close>.
\<close>

definition process_message_body ::
  "(str \<Rightarrow> str) \<Rightarrow> BotConfig \<Rightarrow> 'p MessagingApi \<Rightarrow> MessageEvent \<Rightarrow> (unit, 'p) action" where
  "process_message_body lower config api event =
     (case source event of
        None \<Rightarrow> raise AttributeError
      | Some src \<Rightarrow>
          if source_type src = ascii ''user'' then ret ()
          else
            bind (lift (source_group_id src)) (\<lambda>gid.
            if Some gid \<noteq> SOURCE_GROUP_ID config then ret ()
            else
              bind (lift (should_forward_message lower config (message_text event))) (\<lambda>fwd.
              if \<not> fwd then ret ()
              else
                bind (get_group_info api (Some gid)) (\<lambda>source_group.
                bind (get_group_member_profile api (Some gid) (source_user_id src))
                  (\<lambda>sender_profile.
                bind (get_group_info api (TARGET_GROUP_ID config)) (\<lambda>target_group.
                bind (lift (create_message_text (ascii ''forward'')
                              (display_name sender_profile)
                              (group_name (summary source_group))
                              (message_text event))) (\<lambda>forward_text.
                bind (lift (PushMessageRequest (TARGET_GROUP_ID config)
                              [TextMessage forward_text])) (\<lambda>push_request.
                bind (push_message api push_request) (\<lambda>u.
                bind (lift (create_message_text (ascii ''reply'')
                              (display_name sender_profile)
                              (group_name (summary target_group))
                              (message_text event))) (\<lambda>reply_text.
                bind (lift (ReplyMessageRequest (reply_token event)
                              [TextMessage reply_text])) (\<lambda>reply_request.
                bind (reply_message_with_http_info api reply_request) (\<lambda>u.
                logger INFO
                  ([35338, 24687, 36681, 30332, 25104, 21151, 58, 32]
                     @ take 50 (message_text event) @ ascii ''...'')
                  None))))))))))))"

text \<open>
  \<open>LineBot.process_message\<close>: \<open>except Exception\<close> swallows any exception of the body
  and logs U+8655 U+7406 U+8A0A U+606F U+5931 U+6557 \<open>: \<close> with \<open>str(e)\<close>.
\<close>

definition process_message ::
  "(str \<Rightarrow> str) \<Rightarrow> BotConfig \<Rightarrow> 'p MessagingApi \<Rightarrow> MessageEvent \<Rightarrow> (unit, 'p) action" where
  "process_message lower config api event =
     try_except (process_message_body lower config api event)
       (\<lambda>e. logger ERROR [34389, 29702, 35338, 24687, 22833, 25943, 58, 32] (Some e))"

section \<open>The webhook endpoint\<close>

text \<open>
  \<open>WebhookHandler\<close> belongs to the client library. Its signature check and its parser
  are parameters: \<open>validate secret body signature\<close> is the check against the channel
  secret, \<open>parse body\<close> the events of a body or the exception of the parser. Of the
  events only text message events have a handler; the others are skipped.
\<close>

datatype webhook_event = TextMessageEvent MessageEvent | OtherEvent

record WebhookHandler =
  validate :: "str option \<Rightarrow> str \<Rightarrow> str \<Rightarrow> bool"
  parse :: "str \<Rightarrow> exn + webhook_event list"

text \<open>\<open>handle_message\<close>, registered by \<open>setup_handler\<close> for text message events.\<close>

definition handle_message ::
  "(str \<Rightarrow> str) \<Rightarrow> BotConfig \<Rightarrow> 'p MessagingApi \<Rightarrow> MessageEvent \<Rightarrow> (unit, 'p) action" where
  "handle_message lower config api event = process_message lower config api event"

text \<open>The loop of \<open>WebhookHandler.handle\<close> over the events, in order.\<close>

fun dispatch ::
  "(str \<Rightarrow> str) \<Rightarrow> BotConfig \<Rightarrow> 'p MessagingApi \<Rightarrow> webhook_event list \<Rightarrow> (unit, 'p) action" where
  "dispatch lower config api [] = ret ()"
| "dispatch lower config api (TextMessageEvent event # events) =
     bind (handle_message lower config api event) (\<lambda>u. dispatch lower config api events)"
| "dispatch lower config api (OtherEvent # events) = dispatch lower config api events"

text \<open>\<open>bot.handler.handle(body, signature)\<close>.\<close>

definition handle ::
  "(str \<Rightarrow> str) \<Rightarrow> BotConfig \<Rightarrow> 'p MessagingApi \<Rightarrow> WebhookHandler \<Rightarrow> str \<Rightarrow> str \<Rightarrow>
   (unit, 'p) action" where
  "handle lower config api handler body signature =
     (if \<not> validate handler (CHANNEL_SECRET config) body signature
      then raise InvalidSignatureError
      else bind (lift (parse handler body)) (dispatch lower config api))"

text \<open>The request as \<open>callback\<close> reads it: the signature header, if present, and the body.\<close>

record Request =
  x_line_signature :: "str option"
  data :: str

text \<open>
  The view function \<open>callback\<close>. \<open>abort\<close> raises from inside an \<open>except\<close> clause, so
  the clause after it does not see that exception. The message of the last clause is
  \<open>Webhook\<close> U+8655 U+7406 U+5931 U+6557 \<open>: \<close> and \<open>str(e)\<close>.
\<close>

definition callback ::
  "(str \<Rightarrow> str) \<Rightarrow> BotConfig \<Rightarrow> 'p MessagingApi \<Rightarrow> WebhookHandler \<Rightarrow> Request \<Rightarrow>
   (str, 'p) action" where
  "callback lower config api handler request =
     (let signature = (case x_line_signature request of None \<Rightarrow> [] | Some v \<Rightarrow> v);
          body = data request
      in bind (logger INFO (ascii ''Received webhook'') None) (\<lambda>u.
         bind (logger DEBUG (ascii ''Request body: '' @ body) None) (\<lambda>u.
         bind (try_except (handle lower config api handler body signature)
                 (\<lambda>e. if e = InvalidSignatureError
                       then bind (logger ERROR (ascii ''Invalid signature'') None)
                              (\<lambda>u. raise (HTTPException 400))
                       else bind (logger ERROR
                                    (ascii ''Webhook'' @ [34389, 29702, 22833, 25943, 58, 32])
                                    (Some e))
                              (\<lambda>u. raise (HTTPException 500)))) (\<lambda>u.
         ret (ascii ''OK'')))))"

text \<open>\<open>health_check\<close>, the view of the root path.\<close>

definition health_check :: "(str, 'p) action" where
  "health_check = ret (ascii ''Service is running'')"

text \<open>
  What Flask sends for the outcome of a view: the returned string with status 200, the
  status of an \<open>HTTPException\<close>, and 500 for any other exception.
\<close>

datatype http_response = Response nat str | ErrorResponse nat

fun status_code :: "http_response \<Rightarrow> nat" where
  "status_code (Response code body) = code"
| "status_code (ErrorResponse code) = code"

fun flask_response :: "exn + str \<Rightarrow> http_response" where
  "flask_response (Inr body) = Response 200 body"
| "flask_response (Inl (HTTPException code)) = ErrorResponse code"
| "flask_response (Inl e) = ErrorResponse 500"

text \<open>A POST to \<open>/callback\<close>: the response and the world after it.\<close>

definition post_callback ::
  "(str \<Rightarrow> str) \<Rightarrow> BotConfig \<Rightarrow> 'p MessagingApi \<Rightarrow> WebhookHandler \<Rightarrow> Request \<Rightarrow>
   'p world \<Rightarrow> http_response \<times> 'p world" where
  "post_callback lower config api handler request w =
     (case callback lower config api handler request w of (r, w') \<Rightarrow> (flask_response r, w'))"

section \<open>Observations on a run\<close>

text \<open>The calls added to the world between \<open>w\<close> and a later \<open>w'\<close>.\<close>

definition new_calls :: "'p world \<Rightarrow> 'p world \<Rightarrow> (api_call \<times> (exn + api_result)) list" where
  "new_calls w w' = drop (length (calls w)) (calls w')"

fun is_retrieval :: "api_call \<Rightarrow> bool" where
  "is_retrieval (GetGroupSummary gid) = True"
| "is_retrieval (GetGroupMemberCount gid) = True"
| "is_retrieval (GetGroupMemberProfile gid uid) = True"
| "is_retrieval (PushMessage req) = False"
| "is_retrieval (ReplyMessageWithHttpInfo req) = False"

fun is_push :: "api_call \<Rightarrow> bool" where
  "is_push (PushMessage req) = True"
| "is_push c = False"

fun is_reply :: "api_call \<Rightarrow> bool" where
  "is_reply (ReplyMessageWithHttpInfo req) = True"
| "is_reply c = False"

definition is_delivery :: "api_call \<Rightarrow> bool" where
  "is_delivery c = (is_push c \<or> is_reply c)"

fun failed :: "exn + 'a \<Rightarrow> bool" where
  "failed (Inl e) = True"
| "failed (Inr v) = False"

text \<open>The delivery calls of a trace, in order, without their answers.\<close>

definition deliveries :: "(api_call \<times> (exn + api_result)) list \<Rightarrow> api_call list" where
  "deliveries tr = filter is_delivery (map fst tr)"

section \<open>Platforms compared\<close>

text \<open>
  A platform whose answers to the retrievals and to the push depend on the arguments of
  the call only, not on its state. The answer to a reply is left free: a reply token is
  accepted once.
\<close>

definition answers_fixed :: "'p MessagingApi \<Rightarrow> bool" where
  "answers_fixed api =
     ((\<forall>gid p q. fst (group_summary api gid p) = fst (group_summary api gid q))
    \<and> (\<forall>gid p q. fst (group_member_count api gid p) = fst (group_member_count api gid q))
    \<and> (\<forall>gid uid p q. fst (group_member_profile api gid uid p)
                       = fst (group_member_profile api gid uid q))
    \<and> (\<forall>req p q. fst (push api req p) = fst (push api req q)))"

text \<open>
  The platform \<open>api\<close> with every member count it returns replaced by \<open>f\<close> of it.
\<close>

definition with_counts ::
  "(str option \<Rightarrow> 'p \<Rightarrow> GroupMemberCountResponse \<Rightarrow> GroupMemberCountResponse) \<Rightarrow>
   'p MessagingApi \<Rightarrow> 'p MessagingApi" where
  "with_counts f api =
     api\<lparr>group_member_count := (\<lambda>gid p.
       case group_member_count api gid p of (r, p') \<Rightarrow> (map_sum id (f gid p) r, p'))\<rparr>"

text \<open>
  Two worlds agree when they differ at most in the answers recorded with the calls; two
  programs simulate each other when, from worlds that agree, they end in worlds that
  agree, raise the same exception or return values related by \<open>R\<close>.
\<close>

definition agree :: "'p world \<Rightarrow> 'p world \<Rightarrow> bool" where
  "agree w v = (platform_state w = platform_state v \<and> logged w = logged v
                \<and> map fst (calls w) = map fst (calls v))"

definition sim :: "('a \<Rightarrow> 'b \<Rightarrow> bool) \<Rightarrow> ('a, 'p) action \<Rightarrow> ('b, 'p) action \<Rightarrow> bool" where
  "sim R m m' = (\<forall>w v. agree w v \<longrightarrow>
     rel_sum (=) R (fst (m w)) (fst (m' v)) \<and> agree (snd (m w)) (snd (m' v)))"

section \<open>Sample inputs\<close>

text \<open>
  An environment, an event of the source group whose text passes the filter, a platform
  that answers every call (its state counts the calls; the profile retrieval and the push
  can be made to fail), an empty world and a webhook handler that accepts the signature
  \<open>good\<close> and parses the body \<open>events\<close>.
\<close>

definition sample_env :: "string \<Rightarrow> str option" where
  "sample_env = map_of
     [(''ACCESS_TOKEN'', ascii ''token''), (''CHANNEL_SECRET'', ascii ''secret''),
      (''SOURCE_GROUP_ID'', ascii ''Csource''), (''TARGET_GROUP_ID'', ascii ''Ctarget'')]"

definition sample_text :: str where
  "sample_text = [12304] @ ascii ''cashier notifier'' @ [12305] @ ascii ''XXX''
     @ [37679, 35492, 30908, 65306] @ ascii ''500 video:abc''"

definition sample_event :: MessageEvent where
  "sample_event =
     \<lparr>source = Some (GroupSource (ascii ''Csource'') (Some (ascii ''Usender''))),
      message_text = sample_text,
      reply_token = Some (ascii ''token-1'')\<rparr>"

definition sample_platform :: "bool \<Rightarrow> bool \<Rightarrow> nat MessagingApi" where
  "sample_platform profile_ok push_ok =
     \<lparr>group_summary = (\<lambda>gid n.
        (Inr \<lparr>summary_group_id = (case gid of None \<Rightarrow> [] | Some v \<Rightarrow> v),
              group_name = ascii ''Group '' @ (case gid of None \<Rightarrow> [] | Some v \<Rightarrow> v)\<rparr>, Suc n)),
      group_member_count = (\<lambda>gid n. (Inr \<lparr>count = 3\<rparr>, Suc n)),
      group_member_profile = (\<lambda>gid uid n.
        (if profile_ok
         then Inr \<lparr>profile_user_id = (case uid of None \<Rightarrow> [] | Some v \<Rightarrow> v),
                   display_name = ascii ''Alice''\<rparr>
         else Inl (ApiException 404), Suc n)),
      push = (\<lambda>req n. (if push_ok then Inr () else Inl (ApiException 500), Suc n)),
      reply = (\<lambda>req n. (Inr (), Suc n))\<rparr>"

definition world0 :: "nat world" where
  "world0 = \<lparr>platform_state = 0, calls = [], logged = []\<rparr>"

definition sample_handler :: WebhookHandler where
  "sample_handler =
     \<lparr>validate = (\<lambda>secret body signature. signature = ascii ''good''),
      parse = (\<lambda>body. if body = ascii ''events''
                       then Inr [TextMessageEvent sample_event, OtherEvent]
                       else Inl ValueError)\<rparr>"

section \<open>Properties\<close>

subsection \<open>Strings\<close>

lemma startswith_prefix: "startswith s p = prefix p s"
  by (induction s p rule: startswith.induct) auto

lemma contains_sublist: "contains k s = sublist k s"
proof (induction s)
  case Nil
  show ?case by simp
next
  case (Cons c cs)
  then show ?case by (simp add: sublist_Cons_right startswith_prefix)
qed

subsection \<open>Evaluation and case analysis of a run\<close>

lemmas monad_defs = ret_def raise_def lift_def bind_def try_except_def logger_def call_api_def
lemmas api_defs = get_group_summary_def get_group_member_count_def get_group_member_profile_def
  push_message_def reply_message_with_http_info_def PushMessageRequest_def ReplyMessageRequest_def

lemmas handler_defs = process_message_def process_message_body_def get_group_info_def

lemma create_forward_text:
  "create_message_text (ascii ''forward'') s g t =
     Inr ([91, 36681, 30332, 35338, 24687, 93, 10, 30332, 36865, 32773, 65306] @ s
          @ [10, 70, 114, 111, 109, 32676, 32068, 65306] @ g
          @ [10, 35338, 24687, 20839, 23481, 65306, 10, 10] @ t)"
  by (simp add: create_message_text_def templates_def format_str_def ascii_def field_syntax_def)

lemma create_reply_text:
  "create_message_text (ascii ''reply'') s g t =
     Inr ([91, 35338, 24687, 24050, 36681, 30332, 93, 10, 30332, 36865, 32773, 65306] @ s
          @ [10, 84, 111, 32676, 32068, 65306] @ g
          @ [10, 35338, 24687, 20839, 23481, 65306, 10, 10] @ t)"
  by (simp add: create_message_text_def templates_def format_str_def ascii_def field_syntax_def)

lemma process_message_returns: "fst (process_message lower config api event w) = Inr ()"
  by (auto simp: handler_defs monad_defs api_defs
        create_forward_text create_reply_text
      split: prod.splits sum.splits option.splits)

lemma source_type_user [simp]:
  "(ascii ''group'' = ascii ''user'') = False"
  "(ascii ''room'' = ascii ''user'') = False"
  by (simp_all add: ascii_def)

lemma skipped_run:
  assumes "\<not> (\<exists>g uid. source event = Some (GroupSource g uid) \<and> SOURCE_GROUP_ID config = Some g
             \<and> should_forward_message lower config (message_text event) = Inr True)"
  shows "calls (snd (process_message lower config api event w)) = calls w"
    and "platform_state (snd (process_message lower config api event w)) = platform_state w"
  using assms
  by (cases "source event"; cases "the (source event)";
      auto simp: handler_defs monad_defs split: sum.splits)+

lemma forward_run:
  assumes "source event = Some (GroupSource g uid)" and "SOURCE_GROUP_ID config = Some g"
    and "should_forward_message lower config (message_text event) = Inr True"
  shows "\<exists>tr lg. calls (snd (process_message lower config api event w)) = calls w @ tr \<and>
     logged (snd (process_message lower config api event w)) = logged w @ lg \<and>
     ((\<exists>e. tr = [(GetGroupSummary (Some g), Inl e)]
        \<and> lg = [Log ERROR [29554, 21462, 32676, 32068, 36039, 35338, 22833, 25943, 58, 32] (Some e),
                Log ERROR [34389, 29702, 35338, 24687, 22833, 25943, 58, 32] (Some e)])
    \<or> (\<exists>s1 e. tr = [(GetGroupSummary (Some g), Inr (Summary s1)),
          (GetGroupMemberCount (Some g), Inl e)]
        \<and> lg = [Log ERROR [29554, 21462, 32676, 32068, 36039, 35338, 22833, 25943, 58, 32] (Some e),
                Log ERROR [34389, 29702, 35338, 24687, 22833, 25943, 58, 32] (Some e)])
    \<or> (\<exists>s1 c1 e. tr = [(GetGroupSummary (Some g), Inr (Summary s1)),
          (GetGroupMemberCount (Some g), Inr (MemberCount c1)),
          (GetGroupMemberProfile (Some g) uid, Inl e)]
        \<and> lg = [Log ERROR [34389, 29702, 35338, 24687, 22833, 25943, 58, 32] (Some e)])
    \<or> (\<exists>s1 c1 pr e. tr = [(GetGroupSummary (Some g), Inr (Summary s1)),
          (GetGroupMemberCount (Some g), Inr (MemberCount c1)),
          (GetGroupMemberProfile (Some g) uid, Inr (Profile pr)),
          (GetGroupSummary (TARGET_GROUP_ID config), Inl e)]
        \<and> lg = [Log ERROR [29554, 21462, 32676, 32068, 36039, 35338, 22833, 25943, 58, 32] (Some e),
                Log ERROR [34389, 29702, 35338, 24687, 22833, 25943, 58, 32] (Some e)])
    \<or> (\<exists>s1 c1 pr s2 e. tr = [(GetGroupSummary (Some g), Inr (Summary s1)),
          (GetGroupMemberCount (Some g), Inr (MemberCount c1)),
          (GetGroupMemberProfile (Some g) uid, Inr (Profile pr)),
          (GetGroupSummary (TARGET_GROUP_ID config), Inr (Summary s2)),
          (GetGroupMemberCount (TARGET_GROUP_ID config), Inl e)]
        \<and> lg = [Log ERROR [29554, 21462, 32676, 32068, 36039, 35338, 22833, 25943, 58, 32] (Some e),
                Log ERROR [34389, 29702, 35338, 24687, 22833, 25943, 58, 32] (Some e)])
    \<or> (\<exists>s1 c1 pr s2 c2. TARGET_GROUP_ID config = None \<and> tr = [(GetGroupSummary (Some g), Inr (Summary s1)),
          (GetGroupMemberCount (Some g), Inr (MemberCount c1)),
          (GetGroupMemberProfile (Some g) uid, Inr (Profile pr)),
          (GetGroupSummary (TARGET_GROUP_ID config), Inr (Summary s2)),
          (GetGroupMemberCount (TARGET_GROUP_ID config), Inr (MemberCount c2))]
        \<and> lg = [Log ERROR [34389, 29702, 35338, 24687, 22833, 25943, 58, 32] (Some ValidationError)])
    \<or> (\<exists>s1 c1 pr s2 c2 tgt e. TARGET_GROUP_ID config = Some tgt \<and> tr = [(GetGroupSummary (Some g), Inr (Summary s1)),
          (GetGroupMemberCount (Some g), Inr (MemberCount c1)),
          (GetGroupMemberProfile (Some g) uid, Inr (Profile pr)),
          (GetGroupSummary (TARGET_GROUP_ID config), Inr (Summary s2)),
          (GetGroupMemberCount (TARGET_GROUP_ID config), Inr (MemberCount c2)),
          (PushMessage (PushRequest tgt
             [TextMessage (projr (create_message_text (ascii ''forward'')
                (display_name pr) (group_name s1) (message_text event)))]), Inl e)]
        \<and> lg = [Log ERROR [34389, 29702, 35338, 24687, 22833, 25943, 58, 32] (Some e)])
    \<or> (\<exists>s1 c1 pr s2 c2 tgt. TARGET_GROUP_ID config = Some tgt \<and> reply_token event = None
        \<and> tr = [(GetGroupSummary (Some g), Inr (Summary s1)),
          (GetGroupMemberCount (Some g), Inr (MemberCount c1)),
          (GetGroupMemberProfile (Some g) uid, Inr (Profile pr)),
          (GetGroupSummary (TARGET_GROUP_ID config), Inr (Summary s2)),
          (GetGroupMemberCount (TARGET_GROUP_ID config), Inr (MemberCount c2)),
          (PushMessage (PushRequest tgt
             [TextMessage (projr (create_message_text (ascii ''forward'')
                (display_name pr) (group_name s1) (message_text event)))]), Inr NoContent)]
        \<and> lg = [Log ERROR [34389, 29702, 35338, 24687, 22833, 25943, 58, 32] (Some ValidationError)])
    \<or> (\<exists>s1 c1 pr s2 c2 tgt tok e. TARGET_GROUP_ID config = Some tgt \<and> reply_token event = Some tok
        \<and> tr = [(GetGroupSummary (Some g), Inr (Summary s1)),
          (GetGroupMemberCount (Some g), Inr (MemberCount c1)),
          (GetGroupMemberProfile (Some g) uid, Inr (Profile pr)),
          (GetGroupSummary (TARGET_GROUP_ID config), Inr (Summary s2)),
          (GetGroupMemberCount (TARGET_GROUP_ID config), Inr (MemberCount c2)),
          (PushMessage (PushRequest tgt
             [TextMessage (projr (create_message_text (ascii ''forward'')
                (display_name pr) (group_name s1) (message_text event)))]), Inr NoContent),
          (ReplyMessageWithHttpInfo (ReplyRequest tok
             [TextMessage (projr (create_message_text (ascii ''reply'')
                (display_name pr) (group_name s2) (message_text event)))]), Inl e)]
        \<and> lg = [Log ERROR [34389, 29702, 35338, 24687, 22833, 25943, 58, 32] (Some e)])
    \<or> (\<exists>s1 c1 pr s2 c2 tgt tok. TARGET_GROUP_ID config = Some tgt \<and> reply_token event = Some tok
        \<and> tr = [(GetGroupSummary (Some g), Inr (Summary s1)),
          (GetGroupMemberCount (Some g), Inr (MemberCount c1)),
          (GetGroupMemberProfile (Some g) uid, Inr (Profile pr)),
          (GetGroupSummary (TARGET_GROUP_ID config), Inr (Summary s2)),
          (GetGroupMemberCount (TARGET_GROUP_ID config), Inr (MemberCount c2)),
          (PushMessage (PushRequest tgt
             [TextMessage (projr (create_message_text (ascii ''forward'')
                (display_name pr) (group_name s1) (message_text event)))]), Inr NoContent),
          (ReplyMessageWithHttpInfo (ReplyRequest tok
             [TextMessage (projr (create_message_text (ascii ''reply'')
                (display_name pr) (group_name s2) (message_text event)))]), Inr NoContent)]
        \<and> lg = [Log INFO ([35338, 24687, 36681, 30332, 25104, 21151, 58, 32]
                 @ take 50 (message_text event) @ ascii ''...'') None]))"
  using assms
  by (auto simp: handler_defs monad_defs api_defs create_forward_text create_reply_text
      split: prod.splits sum.splits option.splits)

lemmas sample_defs = sample_env_def sample_text_def sample_event_def sample_platform_def world0_def
  bot_config_def BotConfig_new_def post_init_def START_KEYWORD_default_def

lemma sample_guard:
  "should_forward_message lower_ascii (bot_config sample_env) sample_text = Inr True"
  by (simp add: sample_defs should_forward_message_def lower_ascii_def ascii_def)

lemmas run_defs = handler_defs monad_defs api_defs create_forward_text create_reply_text
  new_calls_def deliveries_def is_delivery_def

lemma sample_source: "SOURCE_GROUP_ID (bot_config sample_env) = Some (ascii ''Csource'')"
  "TARGET_GROUP_ID (bot_config sample_env) = Some (ascii ''Ctarget'')"
  by (simp_all add: sample_defs)


lemma sample_run_calls:
  "new_calls world0 (snd (process_message lower_ascii (bot_config sample_env)
      (sample_platform profile_ok push_ok) sample_event world0)) =
   [(GetGroupSummary (Some (ascii ''Csource'')),
       Inr (Summary \<lparr>summary_group_id = ascii ''Csource'', group_name = ascii ''Group '' @ ascii ''Csource''\<rparr>)),
    (GetGroupMemberCount (Some (ascii ''Csource'')), Inr (MemberCount \<lparr>count = 3\<rparr>))] @
   (if \<not> profile_ok
    then [(GetGroupMemberProfile (Some (ascii ''Csource'')) (Some (ascii ''Usender'')), Inl (ApiException 404))]
    else
     [(GetGroupMemberProfile (Some (ascii ''Csource'')) (Some (ascii ''Usender'')),
         Inr (Profile \<lparr>profile_user_id = ascii ''Usender'', display_name = ascii ''Alice''\<rparr>)),
      (GetGroupSummary (Some (ascii ''Ctarget'')),
         Inr (Summary \<lparr>summary_group_id = ascii ''Ctarget'', group_name = ascii ''Group '' @ ascii ''Ctarget''\<rparr>)),
      (GetGroupMemberCount (Some (ascii ''Ctarget'')), Inr (MemberCount \<lparr>count = 3\<rparr>))] @
     (if \<not> push_ok
      then [(PushMessage (PushRequest (ascii ''Ctarget'')
               [TextMessage (projr (create_message_text (ascii ''forward'') (ascii ''Alice'')
                  (ascii ''Group '' @ ascii ''Csource'') sample_text))]), Inl (ApiException 500))]
      else
       [(PushMessage (PushRequest (ascii ''Ctarget'')
               [TextMessage (projr (create_message_text (ascii ''forward'') (ascii ''Alice'')
                  (ascii ''Group '' @ ascii ''Csource'') sample_text))]), Inr NoContent),
        (ReplyMessageWithHttpInfo (ReplyRequest (ascii ''token-1'')
               [TextMessage (projr (create_message_text (ascii ''reply'') (ascii ''Alice'')
                  (ascii ''Group '' @ ascii ''Ctarget'') sample_text))]), Inr NoContent)]))"
  by (simp add: run_defs sample_source sample_guard sample_event_def sample_platform_def world0_def)

subsection \<open>The filter and the forwarding handler\<close>

lemma should_forward_message_spec:
  assumes "OTHER_KEYWORDS config = Some keywords"
  shows "should_forward_message lower config t =
         Inr (prefix (lower (START_KEYWORD config)) (lower t)
              \<and> (\<forall>k \<in> set keywords. sublist (lower k) (lower t)))"
  using assms
  by (simp add: should_forward_message_def startswith_prefix contains_sublist list_all_iff)

text \<open>
  Claim C1. For every message text \<open>t\<close>, under the configuration the module builds
  (\<open>BotConfig()\<close>, in any environment) and for whatever \<open>str.lower\<close> is,
  \<open>should_forward_message\<close> returns the truth value of: the lower-cased start keyword
  (U+3010 \<open>Cashier Notifier\<close> U+3011) is a prefix of the lower-cased text, and each
  lower-cased required substring (U+932F U+8AA4 U+78BC U+FF1A, and \<open>video:\<close>) occurs in
  the lower-cased text. In particular the text
  U+3010 \<open>cashier notifier\<close> U+3011 \<open>XXX\<close> U+932F U+8AA4 U+78BC U+FF1A \<open>500 video:abc\<close>
  yields true and U+3010 \<open>Cashier Notifier\<close> U+3011 \<open>no error code\<close> yields false.
\<close>

theorem should_forward_message_iff:
  "should_forward_message lower (bot_config getenv) t =
     Inr (prefix (lower ([12304] @ ascii ''Cashier Notifier'' @ [12305])) (lower t)
          \<and> sublist (lower [37679, 35492, 30908, 65306]) (lower t)
          \<and> sublist (lower (ascii ''video:'')) (lower t))
   \<and> should_forward_message lower_ascii (bot_config getenv)
        ([12304] @ ascii ''cashier notifier'' @ [12305] @ ascii ''XXX''
           @ [37679, 35492, 30908, 65306] @ ascii ''500 video:abc'') = Inr True
   \<and> should_forward_message lower_ascii (bot_config getenv)
        ([12304] @ ascii ''Cashier Notifier'' @ [12305] @ ascii ''no error code'') = Inr False"
proof -
  have kw: "OTHER_KEYWORDS (bot_config getenv) = Some [[37679, 35492, 30908, 65306], ascii ''video:'']"
    and st: "START_KEYWORD (bot_config getenv) = [12304] @ ascii ''Cashier Notifier'' @ [12305]"
    by (simp_all add: bot_config_def BotConfig_new_def post_init_def START_KEYWORD_default_def)
  have general: "should_forward_message lower (bot_config getenv) t =
     Inr (prefix (lower ([12304] @ ascii ''Cashier Notifier'' @ [12305])) (lower t)
          \<and> sublist (lower [37679, 35492, 30908, 65306]) (lower t)
          \<and> sublist (lower (ascii ''video:'')) (lower t))"
    by (simp add: should_forward_message_spec[OF kw] st)
  have first: "should_forward_message lower_ascii (bot_config getenv)
     ([12304] @ ascii ''cashier notifier'' @ [12305] @ ascii ''XXX''
        @ [37679, 35492, 30908, 65306] @ ascii ''500 video:abc'') = Inr True"
    by (simp add: should_forward_message_def kw st lower_ascii_def ascii_def)
  have second: "should_forward_message lower_ascii (bot_config getenv)
     ([12304] @ ascii ''Cashier Notifier'' @ [12305] @ ascii ''no error code'') = Inr False"
    by (simp add: should_forward_message_def kw st lower_ascii_def ascii_def)
  from general first second show ?thesis by blast
qed

lemma calls_grow:
  "calls (snd (process_message lower config api event w)) =
   calls w @ new_calls w (snd (process_message lower config api event w))"
proof (cases "\<exists>g uid. source event = Some (GroupSource g uid) \<and> SOURCE_GROUP_ID config = Some g
             \<and> should_forward_message lower config (message_text event) = Inr True")
  case True
  then obtain g uid where "source event = Some (GroupSource g uid)"
     "SOURCE_GROUP_ID config = Some g"
     "should_forward_message lower config (message_text event) = Inr True" by blast
  from forward_run[OF this, of api w] obtain tr where
    "calls (snd (process_message lower config api event w)) = calls w @ tr" by blast
  then show ?thesis by (simp add: new_calls_def)
next
  case False
  from skipped_run(1)[OF this, of api w] show ?thesis by (simp add: new_calls_def)
qed

lemmas obs_defs = new_calls_def deliveries_def is_delivery_def




text \<open>
  Claim C3. For every event, if a metadata retrieval of the run fails (group summary or
  member count of either group, or the profile of the sender), the run makes no delivery
  call, neither push nor reply.
\<close>

theorem no_partial_forward:
  assumes "list_ex (\<lambda>(c, r). is_retrieval c \<and> failed r)
             (new_calls w (snd (process_message lower config api event w)))"
  shows "deliveries (new_calls w (snd (process_message lower config api event w))) = []"
proof (cases "\<exists>g uid. source event = Some (GroupSource g uid) \<and> SOURCE_GROUP_ID config = Some g
             \<and> should_forward_message lower config (message_text event) = Inr True")
  case True
  then obtain g uid where "source event = Some (GroupSource g uid)"
     "SOURCE_GROUP_ID config = Some g"
     "should_forward_message lower config (message_text event) = Inr True" by blast
  from forward_run[OF this, of api w] assms show ?thesis
    by (auto simp: obs_defs)
next
  case False
  from skipped_run(1)[OF this, of api w] show ?thesis by (simp add: obs_defs)
qed

text \<open>
  The sample event on a platform whose profile retrieval fails.
\<close>

theorem no_partial_forward_witness:
  "list_ex (\<lambda>(c, r). is_retrieval c \<and> failed r)
      (new_calls world0 (snd (process_message lower_ascii (bot_config sample_env)
            (sample_platform False True) sample_event world0)))
   \<and> deliveries (new_calls world0 (snd (process_message lower_ascii (bot_config sample_env)
            (sample_platform False True) sample_event world0))) = []"
proof -
  have h: "list_ex (\<lambda>(c, r). is_retrieval c \<and> failed r)
      (new_calls world0 (snd (process_message lower_ascii (bot_config sample_env)
            (sample_platform False True) sample_event world0)))"
    by (simp add: sample_run_calls)
  from h no_partial_forward[OF h] show ?thesis by blast
qed

text \<open>
  Claim C4. For every event whose source type is \<open>user\<close>, or whose source has a group
  identifier different from \<open>SOURCE_GROUP_ID\<close>, the handler returns normally and leaves
  the world as it was: no call of the platform, nothing logged.
\<close>

theorem source_guard_no_calls:
  assumes "source event = Some src"
    and "source_type src = ascii ''user''
         \<or> (\<exists>gid. source_group_id src = Inr gid \<and> Some gid \<noteq> SOURCE_GROUP_ID config)"
  shows "process_message lower config api event w = (Inr (), w)"
  using assms by (cases src) (auto simp: handler_defs monad_defs)

text \<open>
  The sample event sent by a user, and sent from another group.
\<close>

theorem source_guard_no_calls_witness:
  "process_message lower_ascii (bot_config sample_env) (sample_platform True True)
     (sample_event\<lparr>source := Some (UserSource (Some (ascii ''Usender'')))\<rparr>) world0 = (Inr (), world0)
   \<and> process_message lower_ascii (bot_config sample_env) (sample_platform True True)
     (sample_event\<lparr>source := Some (GroupSource (ascii ''Cother'') (Some (ascii ''Usender'')))\<rparr>) world0
       = (Inr (), world0)"
  using source_guard_no_calls[of "sample_event\<lparr>source := Some (UserSource (Some (ascii ''Usender'')))\<rparr>"
          "UserSource (Some (ascii ''Usender''))" "bot_config sample_env" lower_ascii
          "sample_platform True True" world0]
        source_guard_no_calls[of "sample_event\<lparr>source := Some (GroupSource (ascii ''Cother'') (Some (ascii ''Usender'')))\<rparr>"
          "GroupSource (ascii ''Cother'') (Some (ascii ''Usender''))" "bot_config sample_env" lower_ascii
          "sample_platform True True" world0]
  by (simp add: sample_source) (simp add: ascii_def)

text \<open>
  Claim C5. \<open>create_message_text\<close> instantiates the forward template
  (\<open>[\<close> U+8F49 U+767C U+8A0A U+606F \<open>]\<close>, newline, U+767C U+9001 U+8005 U+FF1A, sender,
  newline, \<open>From\<close> U+7FA4 U+7D44 U+FF1A, group, newline, U+8A0A U+606F U+5167 U+5BB9 U+FF1A,
  two newlines, text) and the reply template (the same with
  \<open>[\<close> U+8A0A U+606F U+5DF2 U+8F49 U+767C \<open>]\<close> and \<open>To\<close>). For every event whose run makes
  a delivery call, the run starts with the five retrievals, all answered, and the push;
  the message pushed to \<open>TARGET_GROUP_ID\<close> is the forward template with the display name
  of the sender's profile, the name of the source group and the text of the event; and
  when the push returns and the event has a reply token, the run sends exactly one reply
  after it, with that token and the reply template with the same display name, the name
  of the target group and the same text. Otherwise the push is the only delivery call.
\<close>

theorem forwarded_texts:
  "create_message_text (ascii ''forward'') sender grp t =
     Inr ([91, 36681, 30332, 35338, 24687, 93, 10, 30332, 36865, 32773, 65306] @ sender
          @ [10] @ ascii ''From'' @ [32676, 32068, 65306] @ grp
          @ [10, 35338, 24687, 20839, 23481, 65306, 10, 10] @ t)
   \<and> create_message_text (ascii ''reply'') sender grp t =
     Inr ([91, 35338, 24687, 24050, 36681, 30332, 93, 10, 30332, 36865, 32773, 65306] @ sender
          @ [10] @ ascii ''To'' @ [32676, 32068, 65306] @ grp
          @ [10, 35338, 24687, 20839, 23481, 65306, 10, 10] @ t)
   \<and> (deliveries (new_calls w (snd (process_message lower config api event w))) \<noteq> [] \<longrightarrow>
       (\<exists>g uid tgt s1 c1 pr s2 c2 r.
          source event = Some (GroupSource g uid) \<and> TARGET_GROUP_ID config = Some tgt
        \<and> take 6 
              (new_calls w (snd (process_message lower config api event w))) =
            [(GetGroupSummary (Some g), Inr (Summary s1)),
             (GetGroupMemberCount (Some g), Inr (MemberCount c1)),
             (GetGroupMemberProfile (Some g) uid, Inr (Profile pr)),
             (GetGroupSummary (Some tgt), Inr (Summary s2)),
             (GetGroupMemberCount (Some tgt), Inr (MemberCount c2)),
             (PushMessage (PushRequest tgt
                [TextMessage
                   ([91, 36681, 30332, 35338, 24687, 93, 10, 30332, 36865, 32773, 65306] @ display_name pr
                    @ [10] @ ascii ''From'' @ [32676, 32068, 65306] @ group_name s1
                    @ [10, 35338, 24687, 20839, 23481, 65306, 10, 10] @ message_text event)]), r)]
        \<and> deliveries 
              (new_calls w (snd (process_message lower config api event w))) =
            PushMessage (PushRequest tgt
              [TextMessage
                 ([91, 36681, 30332, 35338, 24687, 93, 10, 30332, 36865, 32773, 65306] @ display_name pr
                  @ [10] @ ascii ''From'' @ [32676, 32068, 65306] @ group_name s1
                  @ [10, 35338, 24687, 20839, 23481, 65306, 10, 10] @ message_text event)])
            # (case (r, reply_token event) of
                 (Inr ok, Some tok) \<Rightarrow>
                   [ReplyMessageWithHttpInfo (ReplyRequest tok
                      [TextMessage
                         ([91, 35338, 24687, 24050, 36681, 30332, 93, 10, 30332, 36865, 32773, 65306] @ display_name pr
                          @ [10] @ ascii ''To'' @ [32676, 32068, 65306] @ group_name s2
                          @ [10, 35338, 24687, 20839, 23481, 65306, 10, 10] @ message_text event)])]
               | other \<Rightarrow> [])))"
proof (intro conjI impI)
  show "create_message_text (ascii ''forward'') sender grp t =
     Inr ([91, 36681, 30332, 35338, 24687, 93, 10, 30332, 36865, 32773, 65306] @ sender
          @ [10] @ ascii ''From'' @ [32676, 32068, 65306] @ grp
          @ [10, 35338, 24687, 20839, 23481, 65306, 10, 10] @ t)"
    by (simp add: create_forward_text) (simp add: ascii_def)
  show "create_message_text (ascii ''reply'') sender grp t =
     Inr ([91, 35338, 24687, 24050, 36681, 30332, 93, 10, 30332, 36865, 32773, 65306] @ sender
          @ [10] @ ascii ''To'' @ [32676, 32068, 65306] @ grp
          @ [10, 35338, 24687, 20839, 23481, 65306, 10, 10] @ t)"
    by (simp add: create_reply_text) (simp add: ascii_def)
next
  let ?w' = "snd (process_message lower config api event w)"
  assume d: "deliveries (new_calls w ?w') \<noteq> []"
  have "\<exists>g uid. source event = Some (GroupSource g uid) \<and> SOURCE_GROUP_ID config = Some g
             \<and> should_forward_message lower config (message_text event) = Inr True"
  proof (rule ccontr)
    assume "\<not> ?thesis"
    from skipped_run(1)[OF this, of api w] d show False by (simp add: obs_defs)
  qed
  then obtain g uid where g: "source event = Some (GroupSource g uid)"
     "SOURCE_GROUP_ID config = Some g"
     "should_forward_message lower config (message_text event) = Inr True" by blast
  have lit: "ascii ''From'' = [70, 114, 111, 109]" "ascii ''To'' = [84, 111]"
    by (simp_all add: ascii_def)
  from forward_run[OF g, of api w] d g(1) show "(\<exists>g uid tgt s1 c1 pr s2 c2 r.
          source event = Some (GroupSource g uid) \<and> TARGET_GROUP_ID config = Some tgt
        \<and> take 6 
              (new_calls w (snd (process_message lower config api event w))) =
            [(GetGroupSummary (Some g), Inr (Summary s1)),
             (GetGroupMemberCount (Some g), Inr (MemberCount c1)),
             (GetGroupMemberProfile (Some g) uid, Inr (Profile pr)),
             (GetGroupSummary (Some tgt), Inr (Summary s2)),
             (GetGroupMemberCount (Some tgt), Inr (MemberCount c2)),
             (PushMessage (PushRequest tgt
                [TextMessage
                   ([91, 36681, 30332, 35338, 24687, 93, 10, 30332, 36865, 32773, 65306] @ display_name pr
                    @ [10] @ ascii ''From'' @ [32676, 32068, 65306] @ group_name s1
                    @ [10, 35338, 24687, 20839, 23481, 65306, 10, 10] @ message_text event)]), r)]
        \<and> deliveries 
              (new_calls w (snd (process_message lower config api event w))) =
            PushMessage (PushRequest tgt
              [TextMessage
                 ([91, 36681, 30332, 35338, 24687, 93, 10, 30332, 36865, 32773, 65306] @ display_name pr
                  @ [10] @ ascii ''From'' @ [32676, 32068, 65306] @ group_name s1
                  @ [10, 35338, 24687, 20839, 23481, 65306, 10, 10] @ message_text event)])
            # (case (r, reply_token event) of
                 (Inr ok, Some tok) \<Rightarrow>
                   [ReplyMessageWithHttpInfo (ReplyRequest tok
                      [TextMessage
                         ([91, 35338, 24687, 24050, 36681, 30332, 93, 10, 30332, 36865, 32773, 65306] @ display_name pr
                          @ [10] @ ascii ''To'' @ [32676, 32068, 65306] @ group_name s2
                          @ [10, 35338, 24687, 20839, 23481, 65306, 10, 10] @ message_text event)])]
               | other \<Rightarrow> []))"
    by (auto simp: obs_defs create_forward_text create_reply_text lit)
qed

text \<open>
  The sample event on a platform that answers every call: the push and the reply, with
  their texts.
\<close>

theorem forwarded_texts_witness:
  "deliveries (new_calls world0 (snd (process_message lower_ascii (bot_config sample_env)
       (sample_platform True True) sample_event world0))) =
     [PushMessage (PushRequest (ascii ''Ctarget'')
        [TextMessage
           ([91, 36681, 30332, 35338, 24687, 93, 10, 30332, 36865, 32773, 65306] @ ascii ''Alice''
            @ [10] @ ascii ''From'' @ [32676, 32068, 65306] @ ascii ''Group Csource''
            @ [10, 35338, 24687, 20839, 23481, 65306, 10, 10] @ sample_text)]),
      ReplyMessageWithHttpInfo (ReplyRequest (ascii ''token-1'')
        [TextMessage
           ([91, 35338, 24687, 24050, 36681, 30332, 93, 10, 30332, 36865, 32773, 65306] @ ascii ''Alice''
            @ [10] @ ascii ''To'' @ [32676, 32068, 65306] @ ascii ''Group Ctarget''
            @ [10, 35338, 24687, 20839, 23481, 65306, 10, 10] @ sample_text)])]"
proof -
  have h: "deliveries (new_calls world0 (snd (process_message lower_ascii (bot_config sample_env)
       (sample_platform True True) sample_event world0))) \<noteq> []"
    by (simp add: sample_run_calls deliveries_def is_delivery_def)
  have six: "take 6 (new_calls world0 (snd (process_message lower_ascii (bot_config sample_env)
       (sample_platform True True) sample_event world0))) =
     [(GetGroupSummary (Some (ascii ''Csource'')),
         Inr (Summary \<lparr>summary_group_id = ascii ''Csource'',
                       group_name = ascii ''Group '' @ ascii ''Csource''\<rparr>)),
      (GetGroupMemberCount (Some (ascii ''Csource'')), Inr (MemberCount \<lparr>count = 3\<rparr>)),
      (GetGroupMemberProfile (Some (ascii ''Csource'')) (Some (ascii ''Usender'')),
         Inr (Profile \<lparr>profile_user_id = ascii ''Usender'', display_name = ascii ''Alice''\<rparr>)),
      (GetGroupSummary (Some (ascii ''Ctarget'')),
         Inr (Summary \<lparr>summary_group_id = ascii ''Ctarget'',
                       group_name = ascii ''Group '' @ ascii ''Ctarget''\<rparr>)),
      (GetGroupMemberCount (Some (ascii ''Ctarget'')), Inr (MemberCount \<lparr>count = 3\<rparr>)),
      (PushMessage (PushRequest (ascii ''Ctarget'')
         [TextMessage (projr (create_message_text (ascii ''forward'') (ascii ''Alice'')
            (ascii ''Group '' @ ascii ''Csource'') sample_text))]), Inr NoContent)]"
    by (simp add: sample_run_calls)
  have tok: "reply_token sample_event = Some (ascii ''token-1'')"
    and msg: "message_text sample_event = sample_text"
    by (simp_all add: sample_event_def)
  have names: "ascii ''Group Csource'' = ascii ''Group '' @ ascii ''Csource''"
    "ascii ''Group Ctarget'' = ascii ''Group '' @ ascii ''Ctarget''"
    by (simp_all add: ascii_def)
  have "\<exists>g uid tgt s1 c1 pr s2 c2 r.
    source sample_event = Some (GroupSource g uid) \<and> TARGET_GROUP_ID (bot_config sample_env) = Some tgt
        \<and> take 6 
              (new_calls world0 (snd (process_message lower_ascii (bot_config sample_env) (sample_platform True True) sample_event world0))) =
            [(GetGroupSummary (Some g), Inr (Summary s1)),
             (GetGroupMemberCount (Some g), Inr (MemberCount c1)),
             (GetGroupMemberProfile (Some g) uid, Inr (Profile pr)),
             (GetGroupSummary (Some tgt), Inr (Summary s2)),
             (GetGroupMemberCount (Some tgt), Inr (MemberCount c2)),
             (PushMessage (PushRequest tgt
                [TextMessage
                   ([91, 36681, 30332, 35338, 24687, 93, 10, 30332, 36865, 32773, 65306] @ display_name pr
                    @ [10] @ ascii ''From'' @ [32676, 32068, 65306] @ group_name s1
                    @ [10, 35338, 24687, 20839, 23481, 65306, 10, 10] @ message_text sample_event)]), r)]
        \<and> deliveries 
              (new_calls world0 (snd (process_message lower_ascii (bot_config sample_env) (sample_platform True True) sample_event world0))) =
            PushMessage (PushRequest tgt
              [TextMessage
                 ([91, 36681, 30332, 35338, 24687, 93, 10, 30332, 36865, 32773, 65306] @ display_name pr
                  @ [10] @ ascii ''From'' @ [32676, 32068, 65306] @ group_name s1
                  @ [10, 35338, 24687, 20839, 23481, 65306, 10, 10] @ message_text sample_event)])
            # (case (r, reply_token sample_event) of
                 (Inr ok, Some tok) \<Rightarrow>
                   [ReplyMessageWithHttpInfo (ReplyRequest tok
                      [TextMessage
                         ([91, 35338, 24687, 24050, 36681, 30332, 93, 10, 30332, 36865, 32773, 65306] @ display_name pr
                          @ [10] @ ascii ''To'' @ [32676, 32068, 65306] @ group_name s2
                          @ [10, 35338, 24687, 20839, 23481, 65306, 10, 10] @ message_text sample_event)])]
               | other \<Rightarrow> [])"
    using forwarded_texts[of _ _ _ world0 lower_ascii "bot_config sample_env"
      "sample_platform True True" sample_event, THEN conjunct2, THEN conjunct2] h
    by (rule mp)
  then show ?thesis
    unfolding six tok msg names by auto
qed

subsection \<open>The webhook endpoint\<close>

lemma dispatch_returns: "fst (dispatch lower config api events w) = Inr ()"
proof (induction events arbitrary: w)
  case Nil
  show ?case by (simp add: ret_def)
next
  case (Cons ev events)
  show ?case
  proof (cases ev)
    case (TextMessageEvent event)
    obtain w' where "process_message lower config api event w = (Inr (), w')"
      using process_message_returns[of lower config api event w]
      by (cases "process_message lower config api event w") auto
    with Cons TextMessageEvent show ?thesis
      by (simp add: bind_def handle_message_def)
  next
    case OtherEvent
    with Cons show ?thesis by simp
  qed
qed

text \<open>
  Claim C6. For every POST to \<open>/callback\<close>, with \<open>signature\<close> the signature header (or
  the empty string) and \<open>w1\<close> the world after the first log entry: if the signature
  check fails the response is 400 and nothing else happens (the world only gains the two
  log entries); if \<open>handle\<close> raises any other exception the response is 500; and if
  \<open>handle\<close> returns the response is 200 with body \<open>OK\<close>.
\<close>

theorem callback_responses:
  assumes "signature = (case x_line_signature request of None \<Rightarrow> [] | Some v \<Rightarrow> v)"
    and "w1 = w\<lparr>logged := logged w @ [Log INFO (ascii ''Received webhook'') None]\<rparr>"
  shows "(\<not> validate handler (CHANNEL_SECRET config) (data request) signature \<longrightarrow>
            post_callback lower config api handler request w =
              (ErrorResponse 400,
               w1\<lparr>logged := logged w1 @ [Log ERROR (ascii ''Invalid signature'') None]\<rparr>))
       \<and> (\<forall>e. fst (handle lower config api handler (data request) signature w1) = Inl e
                \<and> e \<noteq> InvalidSignatureError \<longrightarrow>
            fst (post_callback lower config api handler request w) = ErrorResponse 500)
       \<and> (fst (handle lower config api handler (data request) signature w1) = Inr () \<longrightarrow>
            fst (post_callback lower config api handler request w) = Response 200 (ascii ''OK''))"
  unfolding assms
  by (auto simp: post_callback_def callback_def Let_def handle_def monad_defs
      split: prod.splits sum.splits)

text \<open>
  A request without signature, a signed body that does not parse, and a signed body with
  the sample event.
\<close>

theorem callback_responses_witness:
  "post_callback lower_ascii (bot_config sample_env) (sample_platform True True) sample_handler
      \<lparr>x_line_signature = None, data = ascii ''events''\<rparr> world0 =
     (ErrorResponse 400,
      world0\<lparr>logged := [Log INFO (ascii ''Received webhook'') None,
                         Log ERROR (ascii ''Invalid signature'') None]\<rparr>)
   \<and> fst (post_callback lower_ascii (bot_config sample_env) (sample_platform True True) sample_handler
      \<lparr>x_line_signature = Some (ascii ''good''), data = ascii ''junk''\<rparr> world0) = ErrorResponse 500
   \<and> fst (post_callback lower_ascii (bot_config sample_env) (sample_platform True True) sample_handler
      \<lparr>x_line_signature = Some (ascii ''good''), data = ascii ''events''\<rparr> world0)
       = Response 200 (ascii ''OK'')"
proof -
  let ?w1 = "world0\<lparr>logged := logged world0 @ [Log INFO (ascii ''Received webhook'') None]\<rparr>"
  have bad: "\<not> validate sample_handler (CHANNEL_SECRET (bot_config sample_env))
               (data \<lparr>x_line_signature = None, data = ascii ''events''\<rparr>) []"
    by (simp add: sample_handler_def ascii_def)
  have junk: "fst (handle lower_ascii (bot_config sample_env) (sample_platform True True)
                 sample_handler (data \<lparr>x_line_signature = Some (ascii ''good''), data = ascii ''junk''\<rparr>)
                 (ascii ''good'') ?w1) = Inl ValueError \<and> ValueError \<noteq> InvalidSignatureError"
    by (simp add: handle_def sample_handler_def monad_defs) (simp add: ascii_def)
  have good: "fst (handle lower_ascii (bot_config sample_env) (sample_platform True True)
                 sample_handler (data \<lparr>x_line_signature = Some (ascii ''good''), data = ascii ''events''\<rparr>)
                 (ascii ''good'') ?w1) = Inr ()"
    by (simp add: handle_def sample_handler_def lift_def bind_def raise_def dispatch_returns
          del: dispatch.simps)
  from callback_responses[of "[]" "\<lparr>x_line_signature = None, data = ascii ''events''\<rparr>" ?w1 world0
         sample_handler "bot_config sample_env" lower_ascii "sample_platform True True"] bad
  have a: "post_callback lower_ascii (bot_config sample_env) (sample_platform True True) sample_handler
      \<lparr>x_line_signature = None, data = ascii ''events''\<rparr> world0 =
     (ErrorResponse 400,
      world0\<lparr>logged := [Log INFO (ascii ''Received webhook'') None,
                         Log ERROR (ascii ''Invalid signature'') None]\<rparr>)"
    by (simp add: world0_def)
  from callback_responses[of "ascii ''good''" "\<lparr>x_line_signature = Some (ascii ''good''), data = ascii ''junk''\<rparr>"
         ?w1 world0 sample_handler "bot_config sample_env" lower_ascii "sample_platform True True"] junk
  have b: "fst (post_callback lower_ascii (bot_config sample_env) (sample_platform True True) sample_handler
      \<lparr>x_line_signature = Some (ascii ''good''), data = ascii ''junk''\<rparr> world0) = ErrorResponse 500"
    by simp
  from callback_responses[of "ascii ''good''" "\<lparr>x_line_signature = Some (ascii ''good''), data = ascii ''events''\<rparr>"
         ?w1 world0 sample_handler "bot_config sample_env" lower_ascii "sample_platform True True"] good
  have c: "fst (post_callback lower_ascii (bot_config sample_env) (sample_platform True True) sample_handler
      \<lparr>x_line_signature = Some (ascii ''good''), data = ascii ''events''\<rparr> world0)
       = Response 200 (ascii ''OK'')"
    by simp
  from a b c show ?thesis by blast
qed

lemma failure_logged:
  assumes "list_ex (\<lambda>(c, r). failed r) (new_calls w (snd (process_message lower config api event w)))"
  shows "\<exists>e. logged (snd (process_message lower config api event w)) =
     logged w @ [Log ERROR [29554, 21462, 32676, 32068, 36039, 35338, 22833, 25943, 58, 32] (Some e),
                 Log ERROR [34389, 29702, 35338, 24687, 22833, 25943, 58, 32] (Some e)]
   \<or> logged (snd (process_message lower config api event w)) =
     logged w @ [Log ERROR [34389, 29702, 35338, 24687, 22833, 25943, 58, 32] (Some e)]"
proof (cases "\<exists>g uid. source event = Some (GroupSource g uid) \<and> SOURCE_GROUP_ID config = Some g
             \<and> should_forward_message lower config (message_text event) = Inr True")
  case False
  from skipped_run(1)[OF this, of api w] assms show ?thesis by (simp add: new_calls_def)
next
  case True
  then obtain g uid where g: "source event = Some (GroupSource g uid)"
     "SOURCE_GROUP_ID config = Some g"
     "should_forward_message lower config (message_text event) = Inr True" by blast
  from forward_run[OF this, of api w] assms show ?thesis
    by (auto simp: new_calls_def)
qed

lemma missing_token_logged:
  assumes "reply_token event = None"
    and "list_ex (\<lambda>(c, r). is_push c \<and> \<not> failed r)
           (new_calls w (snd (process_message lower config api event w)))"
  shows "logged (snd (process_message lower config api event w)) =
     logged w @ [Log ERROR [34389, 29702, 35338, 24687, 22833, 25943, 58, 32] (Some ValidationError)]"
proof (cases "\<exists>g uid. source event = Some (GroupSource g uid) \<and> SOURCE_GROUP_ID config = Some g
             \<and> should_forward_message lower config (message_text event) = Inr True")
  case False
  from skipped_run(1)[OF this, of api w] assms(2) show ?thesis by (simp add: new_calls_def)
next
  case True
  then obtain g uid where g: "source event = Some (GroupSource g uid)"
     "SOURCE_GROUP_ID config = Some g"
     "should_forward_message lower config (message_text event) = Inr True" by blast
  from forward_run[OF this, of api w] assms show ?thesis
    by (auto simp: new_calls_def)
qed

text \<open>
  Claim C7, as amended. \<open>process_message\<close> returns normally for every event, platform
  and world. Every exception \<open>e\<close> that the statements under \<open>try\<close> raise is caught and
  logged: the world is the one the body left, with the error entry of \<open>process_message\<close>
  for \<open>e\<close> added to the log. This happens for an event without source or from a room
  (\<open>AttributeError\<close>), for an exception of the filter, for every failed call of the
  platform (after the entry of \<open>get_group_info\<close>, when the failure is there) and for an
  event without reply token after its push (\<open>ValidationError\<close>). And for every POST to
  \<open>/callback\<close> whose signature verifies and whose body parses into events, the response
  is 200 with body \<open>OK\<close>, whatever the platform answers.
\<close>

theorem handler_failures_absorbed:
  "fst (process_message lower config api event w) = Inr ()
   \<and> (\<forall>e. fst (process_message_body lower config api event w) = Inl e \<longrightarrow>
        process_message lower config api event w =
          (Inr (),
           (snd (process_message_body lower config api event w))
             \<lparr>logged := logged (snd (process_message_body lower config api event w))
                  @ [Log ERROR [34389, 29702, 35338, 24687, 22833, 25943, 58, 32] (Some e)]\<rparr>))
   \<and> ((source event = None \<or> (\<exists>rid uid. source event = Some (RoomSource rid uid))) \<longrightarrow>
        process_message lower config api event w =
          (Inr (), w\<lparr>logged := logged w @ [Log ERROR [34389, 29702, 35338, 24687, 22833, 25943, 58, 32] (Some AttributeError)]\<rparr>))
   \<and> (\<forall>g uid e. source event = Some (GroupSource g uid) \<and> SOURCE_GROUP_ID config = Some g
          \<and> should_forward_message lower config (message_text event) = Inl e \<longrightarrow>
        process_message lower config api event w =
          (Inr (), w\<lparr>logged := logged w @ [Log ERROR [34389, 29702, 35338, 24687, 22833, 25943, 58, 32] (Some e)]\<rparr>))
   \<and> (list_ex (\<lambda>(c, r). failed r)
         (new_calls w (snd (process_message lower config api event w))) \<longrightarrow>
       (\<exists>e. logged (snd (process_message lower config api event w)) =
          logged w @ [Log ERROR [29554, 21462, 32676, 32068, 36039, 35338, 22833, 25943, 58, 32] (Some e),
                      Log ERROR [34389, 29702, 35338, 24687, 22833, 25943, 58, 32] (Some e)]
        \<or> logged (snd (process_message lower config api event w)) =
          logged w @ [Log ERROR [34389, 29702, 35338, 24687, 22833, 25943, 58, 32] (Some e)]))
   \<and> (reply_token event = None
        \<and> list_ex (\<lambda>(c, r). is_push c \<and> \<not> failed r)
             (new_calls w (snd (process_message lower config api event w))) \<longrightarrow>
       logged (snd (process_message lower config api event w)) =
          logged w @ [Log ERROR [34389, 29702, 35338, 24687, 22833, 25943, 58, 32] (Some ValidationError)])
   \<and> (validate handler (CHANNEL_SECRET config) (data request)
         (case x_line_signature request of None \<Rightarrow> [] | Some v \<Rightarrow> v)
      \<and> parse handler (data request) = Inr events \<longrightarrow>
      fst (post_callback lower config api handler request w) = Response 200 (ascii ''OK''))"
proof (intro conjI impI allI)
  show "fst (process_message lower config api event w) = Inr ()"
    by (rule process_message_returns)
next
  fix e
  assume "fst (process_message_body lower config api event w) = Inl e"
  then show "process_message lower config api event w =
          (Inr (),
           (snd (process_message_body lower config api event w))
             \<lparr>logged := logged (snd (process_message_body lower config api event w))
                  @ [Log ERROR [34389, 29702, 35338, 24687, 22833, 25943, 58, 32] (Some e)]\<rparr>)"
    by (cases "process_message_body lower config api event w")
       (simp add: process_message_def try_except_def logger_def)
next
  assume "source event = None \<or> (\<exists>rid uid. source event = Some (RoomSource rid uid))"
  then show "process_message lower config api event w =
          (Inr (), w\<lparr>logged := logged w @ [Log ERROR [34389, 29702, 35338, 24687, 22833, 25943, 58, 32] (Some AttributeError)]\<rparr>)"
    by (auto simp: handler_defs monad_defs)
next
  fix g uid e
  assume "source event = Some (GroupSource g uid) \<and> SOURCE_GROUP_ID config = Some g
          \<and> should_forward_message lower config (message_text event) = Inl e"
  then show "process_message lower config api event w =
          (Inr (), w\<lparr>logged := logged w @ [Log ERROR [34389, 29702, 35338, 24687, 22833, 25943, 58, 32] (Some e)]\<rparr>)"
    by (simp add: handler_defs monad_defs)
next
  assume "list_ex (\<lambda>(c, r). failed r)
         (new_calls w (snd (process_message lower config api event w)))"
  then show "\<exists>e. logged (snd (process_message lower config api event w)) =
          logged w @ [Log ERROR [29554, 21462, 32676, 32068, 36039, 35338, 22833, 25943, 58, 32] (Some e),
                      Log ERROR [34389, 29702, 35338, 24687, 22833, 25943, 58, 32] (Some e)]
        \<or> logged (snd (process_message lower config api event w)) =
          logged w @ [Log ERROR [34389, 29702, 35338, 24687, 22833, 25943, 58, 32] (Some e)]"
    by (rule failure_logged)
next
  assume "reply_token event = None
        \<and> list_ex (\<lambda>(c, r). is_push c \<and> \<not> failed r)
             (new_calls w (snd (process_message lower config api event w)))"
  then show "logged (snd (process_message lower config api event w)) =
          logged w @ [Log ERROR [34389, 29702, 35338, 24687, 22833, 25943, 58, 32] (Some ValidationError)]"
    by (simp add: missing_token_logged)
next
  assume h: "validate handler (CHANNEL_SECRET config) (data request)
         (case x_line_signature request of None \<Rightarrow> [] | Some v \<Rightarrow> v)
      \<and> parse handler (data request) = Inr events"
  let ?w1 = "w\<lparr>logged := logged w @ [Log INFO (ascii ''Received webhook'') None]\<rparr>"
  obtain w2 where "dispatch lower config api events ?w1 = (Inr (), w2)"
    using dispatch_returns[of lower config api events ?w1]
    by (cases "dispatch lower config api events ?w1") auto
  with h show "fst (post_callback lower config api handler request w) = Response 200 (ascii ''OK'')"
    by (simp add: post_callback_def callback_def Let_def handle_def monad_defs)
qed

lemma sample_run_no_token:
  "new_calls world0 (snd (process_message lower_ascii (bot_config sample_env)
      (sample_platform True True) (sample_event\<lparr>reply_token := None\<rparr>) world0)) =
   butlast (new_calls world0 (snd (process_message lower_ascii (bot_config sample_env)
      (sample_platform True True) sample_event world0)))"
  unfolding sample_run_calls
  by (simp add: run_defs sample_source sample_guard sample_event_def sample_platform_def world0_def)

text \<open>
  The sample event on a platform whose profile retrieval fails (the body raises, the
  error is logged, the signed request is answered with 200); the sample event without
  source; the sample event under a configuration whose \<open>OTHER_KEYWORDS\<close> was set to
  \<open>None\<close>; and the sample event without reply token.
\<close>

theorem handler_failures_absorbed_witness:
  "fst (process_message_body lower_ascii (bot_config sample_env) (sample_platform False True)
          sample_event world0) = Inl (ApiException 404)
   \<and> list_ex (\<lambda>(c, r). failed r)
        (new_calls world0 (snd (process_message lower_ascii (bot_config sample_env)
           (sample_platform False True) sample_event world0)))
   \<and> logged (snd (process_message lower_ascii (bot_config sample_env)
          (sample_platform False True) sample_event world0)) =
        [Log ERROR [34389, 29702, 35338, 24687, 22833, 25943, 58, 32] (Some (ApiException 404))]
   \<and> process_message lower_ascii (bot_config sample_env) (sample_platform True True)
        (sample_event\<lparr>source := None\<rparr>) world0 =
        (Inr (), world0\<lparr>logged := [Log ERROR [34389, 29702, 35338, 24687, 22833, 25943, 58, 32] (Some AttributeError)]\<rparr>)
   \<and> process_message lower_ascii ((bot_config sample_env)\<lparr>OTHER_KEYWORDS := None\<rparr>)
        (sample_platform True True) sample_event world0 =
        (Inr (), world0\<lparr>logged := [Log ERROR [34389, 29702, 35338, 24687, 22833, 25943, 58, 32] (Some TypeError)]\<rparr>)
   \<and> logged (snd (process_message lower_ascii (bot_config sample_env)
          (sample_platform True True) (sample_event\<lparr>reply_token := None\<rparr>) world0)) =
        [Log ERROR [34389, 29702, 35338, 24687, 22833, 25943, 58, 32] (Some ValidationError)]
   \<and> fst (post_callback lower_ascii (bot_config sample_env) (sample_platform False True) sample_handler
      \<lparr>x_line_signature = Some (ascii ''good''), data = ascii ''events''\<rparr> world0)
       = Response 200 (ascii ''OK'')"
proof -
  let ?request = "\<lparr>x_line_signature = Some (ascii ''good''), data = ascii ''events''\<rparr>"
  have raised: "fst (process_message_body lower_ascii (bot_config sample_env)
      (sample_platform False True) sample_event world0) = Inl (ApiException 404)"
    and quiet: "logged (snd (process_message_body lower_ascii (bot_config sample_env)
      (sample_platform False True) sample_event world0)) = []"
    by (simp_all add: process_message_body_def get_group_info_def monad_defs api_defs
          sample_source sample_guard sample_event_def sample_platform_def world0_def)
  have failing: "list_ex (\<lambda>(c, r). failed r)
     (new_calls world0 (snd (process_message lower_ascii (bot_config sample_env)
        (sample_platform False True) sample_event world0)))"
    by (simp add: sample_run_calls)
  have signed: "validate sample_handler (CHANNEL_SECRET (bot_config sample_env))
         (data ?request)
         (case x_line_signature ?request of None \<Rightarrow> [] | Some v \<Rightarrow> v)
      \<and> parse sample_handler (data ?request) = Inr [TextMessageEvent sample_event, OtherEvent]"
    by (simp add: sample_handler_def)
  note profile_fails =
    handler_failures_absorbed[of lower_ascii "bot_config sample_env" "sample_platform False True"
      sample_event world0 sample_handler ?request "[TextMessageEvent sample_event, OtherEvent]"]
  from profile_fails raised
  have "process_message lower_ascii (bot_config sample_env) (sample_platform False True)
          sample_event world0 =
        (Inr (),
         (snd (process_message_body lower_ascii (bot_config sample_env)
                 (sample_platform False True) sample_event world0))
           \<lparr>logged := logged (snd (process_message_body lower_ascii (bot_config sample_env)
                 (sample_platform False True) sample_event world0))
                @ [Log ERROR [34389, 29702, 35338, 24687, 22833, 25943, 58, 32] (Some (ApiException 404))]\<rparr>)"
    by blast
  with quiet
  have a: "logged (snd (process_message lower_ascii (bot_config sample_env)
          (sample_platform False True) sample_event world0)) =
        [Log ERROR [34389, 29702, 35338, 24687, 22833, 25943, 58, 32] (Some (ApiException 404))]"
    by simp
  from profile_fails signed
  have e: "fst (post_callback lower_ascii (bot_config sample_env) (sample_platform False True)
      sample_handler ?request world0) = Response 200 (ascii ''OK'')"
    by blast
  have "source (sample_event\<lparr>source := None\<rparr>) = None" by simp
  with handler_failures_absorbed[of lower_ascii "bot_config sample_env" "sample_platform True True"
      "sample_event\<lparr>source := None\<rparr>" world0 sample_handler ?request "[]"]
  have b: "process_message lower_ascii (bot_config sample_env) (sample_platform True True)
        (sample_event\<lparr>source := None\<rparr>) world0 =
        (Inr (), world0\<lparr>logged := [Log ERROR [34389, 29702, 35338, 24687, 22833, 25943, 58, 32] (Some AttributeError)]\<rparr>)"
    by (simp add: world0_def)
  have "source sample_event = Some (GroupSource (ascii ''Csource'') (Some (ascii ''Usender'')))
      \<and> SOURCE_GROUP_ID ((bot_config sample_env)\<lparr>OTHER_KEYWORDS := None\<rparr>) = Some (ascii ''Csource'')
      \<and> should_forward_message lower_ascii ((bot_config sample_env)\<lparr>OTHER_KEYWORDS := None\<rparr>)
          (message_text sample_event) = Inl TypeError"
    by (simp add: sample_source)
       (simp add: sample_defs should_forward_message_def lower_ascii_def ascii_def)
  with handler_failures_absorbed[of lower_ascii "(bot_config sample_env)\<lparr>OTHER_KEYWORDS := None\<rparr>"
      "sample_platform True True" sample_event world0 sample_handler ?request "[]"]
  have c: "process_message lower_ascii ((bot_config sample_env)\<lparr>OTHER_KEYWORDS := None\<rparr>)
        (sample_platform True True) sample_event world0 =
        (Inr (), world0\<lparr>logged := [Log ERROR [34389, 29702, 35338, 24687, 22833, 25943, 58, 32] (Some TypeError)]\<rparr>)"
    by (simp add: world0_def)
  have pushed: "reply_token (sample_event\<lparr>reply_token := None\<rparr>) = None
      \<and> list_ex (\<lambda>(c, r). is_push c \<and> \<not> failed r)
          (new_calls world0 (snd (process_message lower_ascii (bot_config sample_env)
             (sample_platform True True) (sample_event\<lparr>reply_token := None\<rparr>) world0)))"
    by (simp add: sample_run_no_token sample_run_calls)
  with handler_failures_absorbed[of lower_ascii "bot_config sample_env" "sample_platform True True"
      "sample_event\<lparr>reply_token := None\<rparr>" world0 sample_handler ?request "[]"]
  have d: "logged (snd (process_message lower_ascii (bot_config sample_env)
          (sample_platform True True) (sample_event\<lparr>reply_token := None\<rparr>) world0)) =
        [Log ERROR [34389, 29702, 35338, 24687, 22833, 25943, 58, 32] (Some ValidationError)]"
    by (simp add: world0_def)
  from raised failing a b c d e show ?thesis by simp
qed

text \<open>
  Claim C7 as stated fails: a request whose signature verifies and whose body the parser
  rejects is answered with 500.
\<close>

theorem verified_signature_500_counterexample:
  "validate sample_handler (CHANNEL_SECRET (bot_config sample_env)) (ascii ''junk'') (ascii ''good'')
   \<and> fst (post_callback lower_ascii (bot_config sample_env) (sample_platform True True) sample_handler
      \<lparr>x_line_signature = Some (ascii ''good''), data = ascii ''junk''\<rparr> world0) = ErrorResponse 500"
  by (simp add: post_callback_def callback_def Let_def handle_def monad_defs sample_handler_def)
     (simp add: ascii_def)

subsection \<open>Member counts\<close>

lemma sim_ret: "R x y \<Longrightarrow> sim R (ret x) (ret y)"
  by (simp add: sim_def ret_def)

lemma sim_raise: "sim R (raise e) (raise e)"
  by (simp add: sim_def raise_def)

lemma sim_lift: "rel_sum (=) R r r' \<Longrightarrow> sim R (lift r) (lift r')"
  by (simp add: sim_def lift_def)

lemma sim_logger: "sim (=) (logger lvl msg e) (logger lvl msg e)"
  by (simp add: sim_def logger_def agree_def)

lemma sim_bind:
  fixes m :: "('a, 'p) action" and m' :: "('b, 'p) action"
  assumes "sim R m m'" and "\<And>x y. R x y \<Longrightarrow> sim S (f x) (f' y)"
  shows "sim S (bind m f) (bind m' f')"
  unfolding sim_def
proof (intro allI impI)
  fix w v :: "'p world"
  assume a: "agree w v"
  obtain r w1 where m: "m w = (r, w1)" by (cases "m w")
  obtain r' v1 where m': "m' v = (r', v1)" by (cases "m' v")
  from assms(1) a have "rel_sum (=) R (fst (m w)) (fst (m' v)) \<and> agree (snd (m w)) (snd (m' v))"
    unfolding sim_def by blast
  with m m' have rel: "rel_sum (=) R r r'" and ag: "agree w1 v1"
    by simp_all
  show "rel_sum (=) S (fst (bind m f w)) (fst (bind m' f' v))
        \<and> agree (snd (bind m f w)) (snd (bind m' f' v))"
  proof (cases r)
    case (Inl e)
    with rel have "r' = Inl e" by (cases r') auto
    with Inl m m' ag show ?thesis by (simp add: bind_def)
  next
    case (Inr x)
    with rel obtain y where y: "r' = Inr y" "R x y" by (cases r') auto
    from assms(2)[OF y(2)] ag have "rel_sum (=) S (fst (f x w1)) (fst (f' y v1))
        \<and> agree (snd (f x w1)) (snd (f' y v1))" by (simp add: sim_def)
    with Inr y m m' show ?thesis by (simp add: bind_def)
  qed
qed

lemma sim_try_except:
  fixes m :: "('a, 'p) action" and m' :: "('b, 'p) action"
  assumes "sim R m m'" and "\<And>e. sim R (h e) (h' e)"
  shows "sim R (try_except m h) (try_except m' h')"
  unfolding sim_def
proof (intro allI impI)
  fix w v :: "'p world"
  assume a: "agree w v"
  obtain r w1 where m: "m w = (r, w1)" by (cases "m w")
  obtain r' v1 where m': "m' v = (r', v1)" by (cases "m' v")
  from assms(1) a have "rel_sum (=) R (fst (m w)) (fst (m' v)) \<and> agree (snd (m w)) (snd (m' v))"
    unfolding sim_def by blast
  with m m' have rel: "rel_sum (=) R r r'" and ag: "agree w1 v1"
    by simp_all
  show "rel_sum (=) R (fst (try_except m h w)) (fst (try_except m' h' v))
        \<and> agree (snd (try_except m h w)) (snd (try_except m' h' v))"
  proof (cases r)
    case (Inl e)
    with rel have r': "r' = Inl e" by (cases r') auto
    from assms(2)[of e] ag have "rel_sum (=) R (fst (h e w1)) (fst (h' e v1))
        \<and> agree (snd (h e w1)) (snd (h' e v1))" by (simp add: sim_def)
    with Inl r' m m' show ?thesis by (simp add: try_except_def)
  next
    case (Inr x)
    with rel obtain y where y: "r' = Inr y" "R x y" by (cases r') auto
    with Inr m m' ag show ?thesis by (simp add: try_except_def)
  qed
qed

lemma sim_call_api:
  fixes g :: "'p \<Rightarrow> (exn + 'a) \<times> 'p" and g' :: "'p \<Rightarrow> (exn + 'b) \<times> 'p"
  assumes "\<And>p. rel_sum (=) R (fst (g p)) (fst (g' p))" and "\<And>p. snd (g p) = snd (g' p)"
  shows "sim R (call_api c tag g) (call_api c tag' g')"
  unfolding sim_def
proof (intro allI impI)
  fix w v :: "'p world"
  assume a: "agree w v"
  then have p: "platform_state w = platform_state v" by (simp add: agree_def)
  from assms[of "platform_state v"] a p
  show "rel_sum (=) R (fst (call_api c tag g w)) (fst (call_api c tag' g' v))
        \<and> agree (snd (call_api c tag g w)) (snd (call_api c tag' g' v))"
    by (simp add: call_api_def case_prod_beta agree_def)
qed

lemma with_counts_fields:
  "group_summary (with_counts f api) = group_summary api"
  "group_member_profile (with_counts f api) = group_member_profile api"
  "push (with_counts f api) = push api"
  "reply (with_counts f api) = reply api"
  "group_member_count (with_counts f api) gid p =
     (map_sum id (f gid p) (fst (group_member_count api gid p)), snd (group_member_count api gid p))"
  by (simp_all add: with_counts_def case_prod_beta)

lemma rel_sum_refl: "rel_sum (=) (=) r r"
  by (cases r) auto

lemma sim_get_group_info:
  "sim (\<lambda>a b. summary a = summary b) (get_group_info (with_counts f api) gid) (get_group_info api gid)"
  unfolding get_group_info_def get_group_summary_def get_group_member_count_def
  apply (rule sim_try_except)
   apply (rule sim_bind[where R = "(=)"])
    apply (rule sim_call_api; simp add: with_counts_fields rel_sum_refl)
   apply (rule sim_bind[where R = "\<lambda>a b. True"])
    apply (rule sim_call_api)
     apply (simp add: with_counts_fields)
     apply (case_tac "fst (group_member_count api gid p)"; simp)
    apply (simp add: with_counts_fields)
   apply (rule sim_ret; simp)
  apply (rule sim_bind[where R = "(=)"])
   apply (rule sim_logger)
  apply (rule sim_raise)
  done

lemma sim_bind_eq:
  assumes "sim (=) m m'" and "\<And>x. sim S (f x) (f' x)"
  shows "sim S (bind m f) (bind m' f')"
  using assms(1) by (rule sim_bind) (simp add: assms(2))

lemma sim_if:
  assumes "c \<Longrightarrow> sim R a a'" and "\<not> c \<Longrightarrow> sim R b b'"
  shows "sim R (if c then a else b) (if c then a' else b')"
  using assms by simp

lemma sim_lift_eq: "sim (=) (lift r) (lift r)"
  by (rule sim_lift) (rule rel_sum_refl)

lemma sim_call_api_eq: "sim (=) (call_api c tag g) (call_api c tag g)"
  by (rule sim_call_api) (simp_all add: rel_sum_refl)

lemma sim_process_message_body:
  "sim (=) (process_message_body lower config (with_counts f api) event)
           (process_message_body lower config api event)"
  unfolding process_message_body_def get_group_member_profile_def push_message_def
    reply_message_with_http_info_def with_counts_fields(1-4)
  apply (cases "source event")
   apply (simp add: sim_raise)
  apply (simp only: option.case)
  apply (rule sim_if)
   apply (rule sim_ret, rule refl)
  apply (rule sim_bind_eq[OF sim_lift_eq])
  apply (rule sim_if)
   apply (rule sim_ret, rule refl)
  apply (rule sim_bind_eq[OF sim_lift_eq])
  apply (rule sim_if)
   apply (rule sim_ret, rule refl)
  apply (rule sim_bind[OF sim_get_group_info])
  apply (rule sim_bind_eq[OF sim_call_api_eq])
  apply (rule sim_bind[OF sim_get_group_info])
  apply (simp only:)
  apply (rule sim_bind_eq[OF sim_lift_eq])
  apply (rule sim_bind_eq[OF sim_lift_eq])
  apply (rule sim_bind_eq[OF sim_call_api_eq])
  apply (rule sim_bind_eq[OF sim_lift_eq])
  apply (rule sim_bind_eq[OF sim_lift_eq])
  apply (rule sim_bind_eq[OF sim_call_api_eq])
  apply (rule sim_logger)
  done

lemma sim_process_message:
  "sim (=) (process_message lower config (with_counts f api) event)
           (process_message lower config api event)"
  unfolding process_message_def
  by (rule sim_try_except[OF sim_process_message_body]) (rule sim_logger)

text \<open>
  Claim C9. For every event, world and platform \<open>api\<close>, and every replacement \<open>f\<close> of
  the member counts the platform returns: the run on \<open>with_counts f api\<close> and the run on
  \<open>api\<close> have the same outcome, leave the platform in the same state, log the same
  entries and make the same calls with the same arguments; in particular the push and
  the reply have the same target and the same text.
\<close>

theorem member_counts_irrelevant:
  "fst (process_message lower config (with_counts f api) event w)
     = fst (process_message lower config api event w)
   \<and> platform_state (snd (process_message lower config (with_counts f api) event w))
     = platform_state (snd (process_message lower config api event w))
   \<and> logged (snd (process_message lower config (with_counts f api) event w))
     = logged (snd (process_message lower config api event w))
   \<and> map fst (calls (snd (process_message lower config (with_counts f api) event w)))
     = map fst (calls (snd (process_message lower config api event w)))
   \<and> deliveries (new_calls w (snd (process_message lower config (with_counts f api) event w)))
     = deliveries (new_calls w (snd (process_message lower config api event w)))"
proof -
  have "agree w w" by (simp add: agree_def)
  with sim_process_message[of lower config f api event]
  have r: "rel_sum (=) (=) (fst (process_message lower config (with_counts f api) event w))
             (fst (process_message lower config api event w))"
    and a: "agree (snd (process_message lower config (with_counts f api) event w))
             (snd (process_message lower config api event w))"
    unfolding sim_def by blast+
  from r have "fst (process_message lower config (with_counts f api) event w)
     = fst (process_message lower config api event w)" by (simp add: sum.rel_eq)
  moreover from a have
    "map fst (drop n (calls (snd (process_message lower config (with_counts f api) event w))))
     = map fst (drop n (calls (snd (process_message lower config api event w))))" for n
    by (simp add: agree_def drop_map[symmetric])
  ultimately show ?thesis using a by (simp add: agree_def deliveries_def new_calls_def)
qed

subsection \<open>Replay and configuration\<close>

lemma fixed_answers_run:
  assumes "answers_fixed api"
  shows "map fst (new_calls w (snd (process_message lower config api event w))) =
         map fst (new_calls v (snd (process_message lower config api event v)))"
proof (cases "\<exists>g uid. source event = Some (GroupSource g uid) \<and> SOURCE_GROUP_ID config = Some g
             \<and> should_forward_message lower config (message_text event) = Inr True")
  case False
  from skipped_run(1)[OF this, of api w] skipped_run(1)[OF this, of api v]
  show ?thesis by (simp add: new_calls_def)
next
  case True
  then obtain g uid where g: "source event = Some (GroupSource g uid)"
     "SOURCE_GROUP_ID config = Some g"
     "should_forward_message lower config (message_text event) = Inr True" by blast
  define a1 where "a1 gid = fst (group_summary api gid (platform_state w))" for gid
  define a2 where "a2 gid = fst (group_member_count api gid (platform_state w))" for gid
  define a3 where "a3 gid uid = fst (group_member_profile api gid uid (platform_state w))" for gid uid
  define a4 where "a4 req = fst (push api req (platform_state w))" for req
  from assms have fx:
    "\<And>gid p. fst (group_summary api gid p) = a1 gid"
    "\<And>gid p. fst (group_member_count api gid p) = a2 gid"
    "\<And>gid uid p. fst (group_member_profile api gid uid p) = a3 gid uid"
    "\<And>req p. fst (push api req p) = a4 req"
    unfolding answers_fixed_def a1_def a2_def a3_def a4_def by blast+
  have one: "\<And>u. map fst (new_calls u (snd (process_message lower config api event u))) =
    (case a1 (Some g) of
       Inl e \<Rightarrow> [GetGroupSummary (Some g)]
     | Inr s1 \<Rightarrow> GetGroupSummary (Some g) #
    (case a2 (Some g) of
       Inl e \<Rightarrow> [GetGroupMemberCount (Some g)]
     | Inr c1 \<Rightarrow> GetGroupMemberCount (Some g) #
    (case a3 (Some g) uid of
       Inl e \<Rightarrow> [GetGroupMemberProfile (Some g) uid]
     | Inr pr \<Rightarrow> GetGroupMemberProfile (Some g) uid #
    (case a1 (TARGET_GROUP_ID config) of
       Inl e \<Rightarrow> [GetGroupSummary (TARGET_GROUP_ID config)]
     | Inr s2 \<Rightarrow> GetGroupSummary (TARGET_GROUP_ID config) #
    (case a2 (TARGET_GROUP_ID config) of
       Inl e \<Rightarrow> [GetGroupMemberCount (TARGET_GROUP_ID config)]
     | Inr c2 \<Rightarrow> GetGroupMemberCount (TARGET_GROUP_ID config) #
    (case TARGET_GROUP_ID config of
       None \<Rightarrow> []
     | Some tgt \<Rightarrow>
    (let req = PushRequest tgt
           [TextMessage (projr (create_message_text (ascii ''forward'')
              (display_name pr) (group_name s1) (message_text event)))]
     in case a4 req of
          Inl e \<Rightarrow> [PushMessage req]
        | Inr x \<Rightarrow> PushMessage req #
    (case reply_token event of
       None \<Rightarrow> []
     | Some tok \<Rightarrow>
         [ReplyMessageWithHttpInfo (ReplyRequest tok
            [TextMessage (projr (create_message_text (ascii ''reply'')
               (display_name pr) (group_name s2) (message_text event)))])]))))))))"
    using g
    apply (cases "a1 (Some g)"; cases "a2 (Some g)"; cases "a3 (Some g) uid";
           cases "a1 (TARGET_GROUP_ID config)"; cases "a2 (TARGET_GROUP_ID config)")
    apply (simp_all add: handler_defs monad_defs api_defs
          create_forward_text create_reply_text new_calls_def Let_def case_prod_beta fx
          split: sum.splits option.splits)
    done
  show ?thesis by (simp add: one)
qed

text \<open>
  Claim C8. On a platform whose answers to the retrievals and to the push depend on the
  call alone, processing the same event a second time, in the world the first run left,
  makes the same calls with the same arguments as the first run: the delivery calls of
  both runs together are those of the first run, twice. Nothing kept from the first run
  suppresses the second forward.
\<close>

theorem replay_forwards_twice:
  assumes "answers_fixed api"
    and "w1 = snd (process_message lower config api event w)"
    and "w2 = snd (process_message lower config api event w1)"
  shows "map fst (new_calls w1 w2) = map fst (new_calls w w1)
       \<and> deliveries (new_calls w w2) = deliveries (new_calls w w1) @ deliveries (new_calls w w1)"
proof -
  have same: "map fst (new_calls w1 w2) = map fst (new_calls w w1)"
    unfolding assms(2,3) by (rule fixed_answers_run[OF assms(1)])
  have c1: "calls w1 = calls w @ new_calls w w1"
    unfolding assms(2) by (rule calls_grow)
  have c2: "calls w2 = calls w1 @ new_calls w1 w2"
    unfolding assms(3) by (rule calls_grow)
  have "calls w2 = calls w @ (new_calls w w1 @ new_calls w1 w2)"
    by (subst c2, subst c1) simp
  then have "new_calls w w2 = new_calls w w1 @ new_calls w1 w2"
    unfolding new_calls_def[of w w2] by (metis append_eq_conv_conj)
  then have "deliveries (new_calls w w2) =
        filter is_delivery (map fst (new_calls w w1)) @ filter is_delivery (map fst (new_calls w1 w2))"
    by (simp only: deliveries_def map_append filter_append)
  also have "\<dots> = deliveries (new_calls w w1) @ deliveries (new_calls w w1)"
    by (simp only: deliveries_def same)
  finally show ?thesis using same by (rule_tac conjI)
qed

text \<open>
  The sample event twice, on the platform that answers every call: the first run makes
  two delivery calls, and so does the second.
\<close>

theorem replay_forwards_twice_witness:
  "answers_fixed (sample_platform True True)
   \<and> deliveries (new_calls world0
        (snd (process_message lower_ascii (bot_config sample_env) (sample_platform True True) sample_event
          (snd (process_message lower_ascii (bot_config sample_env) (sample_platform True True)
             sample_event world0))))) =
     deliveries (new_calls world0 (snd (process_message lower_ascii (bot_config sample_env)
        (sample_platform True True) sample_event world0)))
     @ deliveries (new_calls world0 (snd (process_message lower_ascii (bot_config sample_env)
        (sample_platform True True) sample_event world0)))
   \<and> length (deliveries (new_calls world0 (snd (process_message lower_ascii (bot_config sample_env)
        (sample_platform True True) sample_event world0)))) = 2"
proof -
  have h: "answers_fixed (sample_platform True True)"
    by (simp add: answers_fixed_def sample_platform_def)
  have two: "length (deliveries (new_calls world0 (snd (process_message lower_ascii (bot_config sample_env)
        (sample_platform True True) sample_event world0)))) = 2"
    by (simp add: sample_run_calls deliveries_def is_delivery_def)
  from h two replay_forwards_twice[OF h refl refl, of lower_ascii "bot_config sample_env" sample_event world0]
  show ?thesis by blast
qed

text \<open>
  Claim C10, as amended. For every environment and every argument list of the
  constructor, \<open>OTHER_KEYWORDS\<close> of the new \<open>BotConfig\<close> is the list
  U+932F U+8AA4 U+78BC U+FF1A, \<open>video:\<close>, whatever was passed for it; \<open>START_KEYWORD\<close> is
  U+3010 \<open>Cashier Notifier\<close> U+3011 whenever no \<open>START_KEYWORD\<close> argument is passed, as
  in \<open>BotConfig()\<close>; neither depends on the environment.
\<close>

theorem other_keywords_fixed:
  "OTHER_KEYWORDS (BotConfig_new getenv a1 a2 a3 a4 a5 a6)
     = Some [[37679, 35492, 30908, 65306], ascii ''video:'']
   \<and> START_KEYWORD (BotConfig_new getenv a1 a2 a3 a4 Default a6)
     = [12304] @ ascii ''Cashier Notifier'' @ [12305]
   \<and> START_KEYWORD (bot_config getenv) = [12304] @ ascii ''Cashier Notifier'' @ [12305]
   \<and> OTHER_KEYWORDS (bot_config getenv) = Some [[37679, 35492, 30908, 65306], ascii ''video:'']"
  by (simp add: bot_config_def BotConfig_new_def post_init_def START_KEYWORD_default_def)

text \<open>
  Claim C10 as stated fails: a \<open>BotConfig\<close> constructed with the argument
  \<open>START_KEYWORD='x'\<close> has that start keyword.
\<close>

theorem start_keyword_argument_counterexample:
  "START_KEYWORD (BotConfig_new (\<lambda>v. None) Default Default Default Default
      (Given (ascii ''x'')) Default) \<noteq> [12304] @ ascii ''Cashier Notifier'' @ [12305]"
  by (simp add: BotConfig_new_def post_init_def ascii_def)

end
